theory Spec2Isabelle
  imports Complex_Main
begin

section \<open>Python strings\<close>

text \<open>
  A Python \<^verbatim>\<open>str\<close> is modelled as a \<^typ>\<open>string\<close> whose characters are the code points
  below 256; larger code points are outside the model. An exception is modelled by the
  text that \<^verbatim>\<open>str(e)\<close> gives, which is all that the program ever reads of one.
\<close>

type_synonym exn = string

text \<open>\<^verbatim>\<open>str.isspace\<close> on one character, for the code points below 256.\<close>

definition py_isspace :: "char \<Rightarrow> bool" where
  "py_isspace c =
     (c = CHR 0x09 \<or> c = CHR 0x0A \<or> c = CHR 0x0B \<or> c = CHR 0x0C \<or> c = CHR 0x0D \<or>
      c = CHR 0x1C \<or> c = CHR 0x1D \<or> c = CHR 0x1E \<or> c = CHR 0x1F \<or> c = CHR 0x20 \<or>
      c = CHR 0x85 \<or> c = CHR 0xA0)"

text \<open>\<^verbatim>\<open>s.strip()\<close>: leading and trailing whitespace removed.\<close>

definition py_strip :: "string \<Rightarrow> string" where
  "py_strip s = rev (dropWhile py_isspace (rev (dropWhile py_isspace s)))"

text \<open>\<^verbatim>\<open>s.startswith(p)\<close>.\<close>

definition py_startswith :: "string \<Rightarrow> string \<Rightarrow> bool" where
  "py_startswith s p = (take (length p) s = p)"

text \<open>
  \<^verbatim>\<open>s.replace(old, new)\<close> for a non-empty \<open>old\<close>: every occurrence, found from the left
  and not overlapping, is replaced. The counter holds how many characters of a matched
  occurrence are still to be skipped.
\<close>

fun py_replace_from :: "string \<Rightarrow> string \<Rightarrow> nat \<Rightarrow> string \<Rightarrow> string" where
  "py_replace_from old new k [] = []"
| "py_replace_from old new (Suc k) (c # cs) = py_replace_from old new k cs"
| "py_replace_from old new 0 (c # cs) =
     (if old \<noteq> [] \<and> py_startswith (c # cs) old
      then new @ py_replace_from old new (length old - 1) cs
      else c # py_replace_from old new 0 cs)"

definition py_replace :: "string \<Rightarrow> string \<Rightarrow> string \<Rightarrow> string" where
  "py_replace s old new = py_replace_from old new 0 s"

text \<open>\<^verbatim>\<open>s.find(c)\<close> and \<^verbatim>\<open>s.rfind(c)\<close> for a one-character argument: an index, or -1.\<close>

definition py_find :: "string \<Rightarrow> char \<Rightarrow> int" where
  "py_find s c = (if c \<in> set s then int (length (takeWhile (\<lambda>x. x \<noteq> c) s)) else - 1)"

definition py_rfind :: "string \<Rightarrow> char \<Rightarrow> int" where
  "py_rfind s c =
     (if c \<in> set s then int (length s) - 1 - int (length (takeWhile (\<lambda>x. x \<noteq> c) (rev s)))
      else - 1)"

text \<open>\<^verbatim>\<open>s[i:j]\<close> for bounds that are not negative.\<close>

definition py_slice :: "string \<Rightarrow> int \<Rightarrow> int \<Rightarrow> string" where
  "py_slice s i j = take (nat j - nat i) (drop (nat i) s)"

text \<open>\<^verbatim>\<open>sep.join(xs)\<close>.\<close>

fun py_join :: "string \<Rightarrow> string list \<Rightarrow> string" where
  "py_join sep [] = []"
| "py_join sep [x] = x"
| "py_join sep (x # y # ys) = x @ sep @ py_join sep (y # ys)"

text \<open>\<^verbatim>\<open>s.split(c)\<close> for a one-character separator.\<close>

fun py_split_from :: "char \<Rightarrow> string \<Rightarrow> string \<Rightarrow> string list" where
  "py_split_from c acc [] = [rev acc]"
| "py_split_from c acc (x # xs) =
     (if x = c then rev acc # py_split_from c [] xs else py_split_from c (x # acc) xs)"

definition py_split :: "string \<Rightarrow> char \<Rightarrow> string list" where
  "py_split s c = py_split_from c [] s"

text \<open>\<^verbatim>\<open>str(n)\<close> for an integer.\<close>

definition digit_char :: "nat \<Rightarrow> char" where
  "digit_char d = ''0123456789'' ! d"

fun str_nat :: "nat \<Rightarrow> string" where
  "str_nat n = (if n < 10 then [digit_char n] else str_nat (n div 10) @ [digit_char (n mod 10)])"

definition py_str_int :: "int \<Rightarrow> string" where
  "py_str_int i = (if i < 0 then CHR ''-'' # str_nat (nat (- i)) else str_nat (nat i))"

section \<open>JSON values\<close>

text \<open>
  The values that \<^verbatim>\<open>json.loads\<close> builds and \<^verbatim>\<open>json.dumps\<close> prints. An object keeps its
  members in the order written; Python's \<^verbatim>\<open>dict\<close> keeps the last of several members with
  one key, which is what \<open>dict_get\<close> reads. A float is idealised as the rational number it
  denotes; how Python prints one (\<^verbatim>\<open>float.__repr__\<close>) is a parameter wherever it is needed.
\<close>

datatype json =
    JNull
  | JBool bool
  | JInt int
  | JFloat rat
  | JStr string
  | JArr "json list"
  | JObj "(string \<times> json) list"

text \<open>A Python \<^verbatim>\<open>dict\<close> with text keys, and \<^verbatim>\<open>d.get(k)\<close>: \<open>None\<close> when the key is absent.\<close>

type_synonym py_dict = "(string \<times> json) list"

definition dict_get :: "py_dict \<Rightarrow> string \<Rightarrow> json option" where
  "dict_get kvs k = map_of (rev kvs) k"

text \<open>\<^verbatim>\<open>k in d\<close>.\<close>

definition dict_has :: "py_dict \<Rightarrow> string \<Rightarrow> bool" where
  "dict_has kvs k = (k \<in> set (map fst kvs))"

definition bslash :: char where
  "bslash = CHR 0x5C"

definition hex_char :: "nat \<Rightarrow> char" where
  "hex_char d = ''0123456789abcdef'' ! d"

text \<open>The escape \<^verbatim>\<open>\uXXXX\<close> of a code point below 256.\<close>

definition u_escape :: "char \<Rightarrow> string" where
  "u_escape c =
     [bslash, CHR ''u'', CHR ''0'', CHR ''0'',
      hex_char (of_char c div 16), hex_char (of_char c mod 16)]"

text \<open>
  One character inside a string printed by \<^verbatim>\<open>json.dumps\<close>. With \<open>ensure_ascii\<close> every
  character outside the range from space to tilde is escaped; without it only the
  control characters below 0x20 are.
\<close>

definition json_escape_char :: "bool \<Rightarrow> char \<Rightarrow> string" where
  \<open>json_escape_char ensure_ascii c =
     (if c = CHR ''"'' then [bslash, CHR ''"'']
      else if c = bslash then [bslash, bslash]
      else if c = CHR 0x0A then [bslash, CHR ''n'']
      else if c = CHR 0x0D then [bslash, CHR ''r'']
      else if c = CHR 0x09 then [bslash, CHR ''t'']
      else if c = CHR 0x08 then [bslash, CHR ''b'']
      else if c = CHR 0x0C then [bslash, CHR ''f'']
      else if (of_char c :: nat) < 32 then u_escape c
      else if ensure_ascii \<and> (of_char c :: nat) > 126 then u_escape c
      else [c])\<close>

definition json_dumps_str :: "bool \<Rightarrow> string \<Rightarrow> string" where
  \<open>json_dumps_str ensure_ascii s =
     [CHR ''"''] @ concat (map (json_escape_char ensure_ascii) s) @ [CHR ''"'']\<close>

text \<open>
  \<^verbatim>\<open>json.dumps(v, ensure_ascii=...)\<close> with the default separators \<^verbatim>\<open>", "\<close> and \<^verbatim>\<open>": "\<close>.
\<close>

fun json_dumps :: "(rat \<Rightarrow> string) \<Rightarrow> bool \<Rightarrow> json \<Rightarrow> string" where
  "json_dumps fr ea JNull = ''null''"
| "json_dumps fr ea (JBool b) = (if b then ''true'' else ''false'')"
| "json_dumps fr ea (JInt i) = py_str_int i"
| "json_dumps fr ea (JFloat r) = fr r"
| "json_dumps fr ea (JStr s) = json_dumps_str ea s"
| "json_dumps fr ea (JArr xs) = ''['' @ py_join '', '' (map (json_dumps fr ea) xs) @ '']''"
| "json_dumps fr ea (JObj kvs) =
     ''{'' @ py_join '', ''
        (map (\<lambda>kv. json_dumps_str ea (fst kv) @ '': '' @ json_dumps fr ea (snd kv)) kvs) @ ''}''"

text \<open>\<^verbatim>\<open>type(v).__name__\<close>.\<close>

fun py_type_name :: "json \<Rightarrow> string" where
  "py_type_name JNull = ''NoneType''"
| "py_type_name (JBool b) = ''bool''"
| "py_type_name (JInt i) = ''int''"
| "py_type_name (JFloat r) = ''float''"
| "py_type_name (JStr s) = ''str''"
| "py_type_name (JArr xs) = ''list''"
| "py_type_name (JObj kvs) = ''dict''"

section \<open>The response parser\<close>

text \<open>
  \<^verbatim>\<open>safe_json_parse(text)\<close>. \<^verbatim>\<open>json.loads\<close> is the parameter \<open>loads\<close> (\<open>None\<close> when it raises
  \<^verbatim>\<open>JSONDecodeError\<close>). When no brace is found the function raises \<^verbatim>\<open>JSONDecodeError\<close> itself;
  its handler then reads \<^verbatim>\<open>json_text\<close>, which is unbound, and that error is wrapped in the
  same \<^verbatim>\<open>ValueError\<close> as a failed second attempt.
\<close>

definition parse_failed :: "string \<Rightarrow> exn" where
  "parse_failed s = ''Failed to parse JSON from LLM response: '' @ s"

definition safe_json_parse :: "(string \<Rightarrow> json option) \<Rightarrow> string \<Rightarrow> exn + json" where
  \<open>safe_json_parse loads s =
     (let start = py_find s CHR ''{'';
          end_ix = py_rfind s CHR ''}''
      in if start = - 1 \<or> end_ix = - 1 then Inl (parse_failed s)
         else
           (let json_text = py_slice s start (end_ix + 1)
            in case loads json_text of
                 Some v \<Rightarrow> Inr v
               | None \<Rightarrow>
                   (case loads (py_replace json_text [CHR 0x27] [CHR 0x22]) of
                      Some v \<Rightarrow> Inr v
                    | None \<Rightarrow> Inl (parse_failed s))))\<close>

section \<open>The agent loop\<close>

text \<open>
  One entry of the conversation history, and what \<^verbatim>\<open>run_agent\<close> returns: the dictionary
  with the key \<^verbatim>\<open>final_answer\<close> or the one with the key \<^verbatim>\<open>error\<close>.
\<close>

record history_entry =
  role :: string
  content :: string

datatype agent_outcome = FinalAnswer string | ErrorOutcome string

text \<open>
  An entry of the registry \<^verbatim>\<open>TOOLS\<close>. The handler is called with the keyword mapping and
  the state of the world outside the program (\<open>'w\<close>); it returns what the Python
  function returns, or the exception it raises, and the world it leaves.
\<close>

record 'w tool_info =
  func :: "py_dict \<Rightarrow> 'w \<Rightarrow> (exn + json) \<times> 'w"
  desc :: string
  schema :: "(string \<times> string) list"

text \<open>
  What the loop is given from outside: the reasoning client \<^verbatim>\<open>llm_call\<close> (it may read and
  change the world, and may raise), \<^verbatim>\<open>json.loads\<close>, the printing of floats, and the
  registry.
\<close>

record 'w agent_env =
  llm_call :: "string \<Rightarrow> 'w \<Rightarrow> (exn + string) \<times> 'w"
  json_loads :: "string \<Rightarrow> json option"
  float_repr :: "rat \<Rightarrow> string"
  registry :: "(string \<times> 'w tool_info) list"

text \<open>
  The state of one \<^verbatim>\<open>run_agent\<close> call: the local list \<^verbatim>\<open>history\<close> and the world. Two fields
  are not in the program and only record what it did: \<open>invoked\<close> lists the handler calls
  \<^verbatim>\<open>func(**args)\<close> made, and \<open>llm_calls\<close> counts the calls of \<^verbatim>\<open>llm_call\<close>.
\<close>

record 'w agent_state =
  history :: "history_entry list"
  world :: 'w
  invoked :: "(string \<times> py_dict) list"
  llm_calls :: nat

definition MAX_STEPS :: nat where
  "MAX_STEPS = 8"

text \<open>\<^verbatim>\<open>AGENT_SYSTEM_PROMPT\<close>, cut at its three replacement fields.\<close>

definition PROMPT_INTRO :: string where
  \<open>PROMPT_INTRO =
    ''You are Project Samarth, a data analyst assistant for Indian agriculture and climate data.\<newline>'' @
    ''Your job is to answer the user\'s question. You must be accurate and cite your sources.\<newline>'' @
    ''\<newline>'' @
    ''You have access to the following tools:\<newline>''\<close>

definition PROMPT_RULES :: string where
  \<open>PROMPT_RULES =
    ''\<newline>'' @
    ''\<newline>'' @
    ''You must follow this process:\<newline>'' @
    ''1.  **Think:** Analyze the user\'s question and the conversation history.\<newline>'' @
    ''2.  **Reason:** Decide if you have enough information to answer.\<newline>'' @
    ''    - If YES, you *must* respond with your final answer, prefixed with "Final Answer:".\<newline>'' @
    ''    - If NO, you must choose *one* tool to call to get the missing information.\<newline>'' @
    ''3.  **Act:** If you need to call a tool, you must respond with *only* a single JSON object. This JSON must contain "tool" (the tool name) and "args" (a dictionary of arguments).\<newline>'' @
    ''\<newline>'' @
    ''**RULES:**\<newline>'' @
    ''-   **Multi-step:** For complex questions (like "compare X and Y" or "correlate A and B"), you must call tools multiple times. Call for X, get the result, then call for Y, get the result, then provide the "Final Answer:".\<newline>'' @
    ''-   **Traceability:** You *must* cite the "source" field returned by the tools for every piece of data you present.\<newline>'' @
    ''-   **Data Limitations:** The rainfall API only has data from 1901-2017. Politely inform the user if they ask for data outside this range.\<newline>'' @
    ''-   **Errors:** If a tool returns an error, explain the error to the user and suggest how to fix their query. Do not try to call another tool.\<newline>'' @
    ''-   **Comparisons:** When comparing two or more items (like "compare X and Y"), you *must* present the final comparison in a Markdown table.\<newline>'' @
    ''**Conversation History:**\<newline>''\<close>

definition PROMPT_QUESTION :: string where
  \<open>PROMPT_QUESTION =
    ''\<newline>'' @
    ''\<newline>'' @
    ''**User Question:**\<newline>''\<close>

definition PROMPT_RESPONSE :: string where
  \<open>PROMPT_RESPONSE =
    ''\<newline>'' @
    ''\<newline>'' @
    ''Your response (either JSON for a tool call, or "Final Answer: ..." text):\<newline>''\<close>

text \<open>\<^verbatim>\<open>AGENT_SYSTEM_PROMPT.format(tool_definitions=..., history=..., user_query=...)\<close>.\<close>

definition format_prompt :: "string \<Rightarrow> string \<Rightarrow> string \<Rightarrow> string" where
  "format_prompt tool_definitions history_text user_query =
     PROMPT_INTRO @ tool_definitions @ PROMPT_RULES @ history_text @ PROMPT_QUESTION @
     user_query @ PROMPT_RESPONSE"

text \<open>\<^verbatim>\<open>get_tool_definitions()\<close>, over the registry in the order of its entries.\<close>

definition tool_definition :: "(rat \<Rightarrow> string) \<Rightarrow> string \<times> 'w tool_info \<Rightarrow> string" where
  \<open>tool_definition fr t =
     ''- Tool: `'' @ fst t @ ''`\<newline>  - Description: '' @ desc (snd t) @
     ''\<newline>  - Arguments (JSON Schema): '' @
     json_dumps fr True (JObj (map (\<lambda>kv. (fst kv, JStr (snd kv))) (schema (snd t))))\<close>

definition get_tool_definitions :: "(rat \<Rightarrow> string) \<Rightarrow> (string \<times> 'w tool_info) list \<Rightarrow> string" where
  "get_tool_definitions fr reg = py_join ''\<newline>'' (map (tool_definition fr) reg)"

text \<open>Step 1 of the loop body: the prompt, from the history so far.\<close>

definition format_entry :: "history_entry \<Rightarrow> string" where
  "format_entry item = ''Role: '' @ role item @ ''\<newline>Content: '' @ content item"

definition compose_prompt :: "string \<Rightarrow> string \<Rightarrow> history_entry list \<Rightarrow> string" where
  "compose_prompt tool_defs user_query h =
     (let history_str = py_join ''\<newline>'' (map format_entry h)
      in format_prompt tool_defs
           (if history_str = [] then ''No history yet.'' else history_str) user_query)"

text \<open>Step 3: the test for a final answer, and the text returned for one.\<close>

definition is_final_answer :: "string \<Rightarrow> bool" where
  "is_final_answer raw_response = py_startswith (py_strip raw_response) ''Final Answer:''"

definition final_answer_of :: "string \<Rightarrow> string" where
  "final_answer_of raw_response =
     py_strip (py_replace (py_strip raw_response) ''Final Answer:'' [])"

text \<open>
  \<^verbatim>\<open>tool_name not in TOOLS\<close> for a value that names no tool: a list or an object cannot be
  hashed, so the test itself raises \<^verbatim>\<open>TypeError\<close>; any other value gives the \<^verbatim>\<open>ValueError\<close> of
  the program, whose message prints the value as an f-string does (\<open>None\<close> is what
  \<^verbatim>\<open>choice.get("tool")\<close> gives for an object without that member).
\<close>

fun unknown_tool :: "(rat \<Rightarrow> string) \<Rightarrow> json option \<Rightarrow> exn" where
  \<open>unknown_tool fr None = ''LLM chose unknown tool: None''\<close>
| \<open>unknown_tool fr (Some JNull) = ''LLM chose unknown tool: None''\<close>
| \<open>unknown_tool fr (Some (JBool b)) =
     ''LLM chose unknown tool: '' @ (if b then ''True'' else ''False'')\<close>
| \<open>unknown_tool fr (Some (JInt i)) = ''LLM chose unknown tool: '' @ py_str_int i\<close>
| \<open>unknown_tool fr (Some (JFloat r)) = ''LLM chose unknown tool: '' @ fr r\<close>
| \<open>unknown_tool fr (Some (JStr s)) = ''LLM chose unknown tool: '' @ s\<close>
| \<open>unknown_tool fr (Some (JArr xs)) = ''unhashable type: \'list'' @ [CHR 0x27]\<close>
| \<open>unknown_tool fr (Some (JObj kvs)) = ''unhashable type: \'dict'' @ [CHR 0x27]\<close>

text \<open>The name of a registered tool, with its entry.\<close>

definition find_tool ::
  "(rat \<Rightarrow> string) \<Rightarrow> (string \<times> 'w tool_info) list \<Rightarrow> json option \<Rightarrow> exn + (string \<times> 'w tool_info)"
where
  "find_tool fr reg tool_name =
     (case tool_name of
        Some (JStr s) \<Rightarrow>
          (case map_of reg s of
             Some info \<Rightarrow> Inr (s, info)
           | None \<Rightarrow> Inl (unknown_tool fr tool_name))
      | _ \<Rightarrow> Inl (unknown_tool fr tool_name))"

text \<open>
  The \<^verbatim>\<open>TypeError\<close> of \<^verbatim>\<open>func(**args)\<close> when \<^verbatim>\<open>args\<close> is no dictionary. CPython 3.11 names the
  function with its module, which is \<^verbatim>\<open>app.agent\<close> for every function of the registry.
\<close>

definition not_a_mapping :: "string \<Rightarrow> json \<Rightarrow> exn" where
  "not_a_mapping name args =
     ''app.agent.'' @ name @ ''() argument after ** must be a mapping, not '' @
     py_type_name args"

definition no_get :: "json \<Rightarrow> exn" where
  \<open>no_get v = [CHR 0x27] @ py_type_name v @ [CHR 0x27] @ '' object has no attribute \'get'' @ [CHR 0x27]\<close>

text \<open>
  The body of the \<^verbatim>\<open>try\<close> after the first \<^verbatim>\<open>history.append\<close>: parse, look the tool up, call
  it and print its result. \<open>Inl\<close> is the exception that reaches \<^verbatim>\<open>except Exception\<close>.
\<close>

definition call_tool :: "'w agent_env \<Rightarrow> string \<Rightarrow> 'w agent_state \<Rightarrow> (exn + string) \<times> 'w agent_state" where
  "call_tool env raw_response st =
     (case safe_json_parse (json_loads env) raw_response of
        Inl e \<Rightarrow> (Inl e, st)
      | Inr (JObj choice) \<Rightarrow>
          (let tool_name = dict_get choice ''tool'';
               args = (case dict_get choice ''args'' of None \<Rightarrow> JObj [] | Some a \<Rightarrow> a)
           in case find_tool (float_repr env) (registry env) tool_name of
                Inl e \<Rightarrow> (Inl e, st)
              | Inr (name, info) \<Rightarrow>
                  (case args of
                     JObj kwargs \<Rightarrow>
                       (case func info kwargs (world st) of
                          (r, w) \<Rightarrow>
                            (case r of
                               Inl e \<Rightarrow> Inl e
                             | Inr result \<Rightarrow> Inr (json_dumps (float_repr env) False result),
                             st\<lparr>world := w, invoked := invoked st @ [(name, kwargs)]\<rparr>))
                   | _ \<Rightarrow> (Inl (not_a_mapping name args), st)))
      | Inr v \<Rightarrow> (Inl (no_get v), st))"

definition error_str :: "exn \<Rightarrow> string" where
  \<open>error_str e =
     ''Error: '' @ e @
     ''. The LLM response was not valid JSON or the tool call failed. Make sure to respond with *only* JSON for tool calls or \'Final Answer:\' for answers.''\<close>

text \<open>
  One pass through the loop body. The second component is the value returned from inside
  the loop, if any; \<open>None\<close> means that the loop goes on.
\<close>

definition agent_step ::
  "'w agent_env \<Rightarrow> string \<Rightarrow> string \<Rightarrow> 'w agent_state \<Rightarrow> 'w agent_state \<times> agent_outcome option"
where
  "agent_step env tool_defs user_query st =
     (case llm_call env (compose_prompt tool_defs user_query (history st)) (world st) of
        (r, w) \<Rightarrow>
          (let st1 = st\<lparr>world := w, llm_calls := Suc (llm_calls st)\<rparr>
           in case r of
                Inl e \<Rightarrow> (st1, Some (ErrorOutcome (''Error communicating with LLM: '' @ e)))
              | Inr raw_response \<Rightarrow>
                  if is_final_answer raw_response
                  then (st1, Some (FinalAnswer (final_answer_of raw_response)))
                  else
                    (case call_tool env raw_response
                            (st1\<lparr>history := history st1 @
                               [\<lparr>role = ''assistant (tool call)'', content = raw_response\<rparr>]\<rparr>) of
                       (r2, st2) \<Rightarrow>
                         (st2\<lparr>history := history st2 @
                            [\<lparr>role = ''tool_output'',
                              content = (case r2 of Inl e \<Rightarrow> error_str e | Inr out \<Rightarrow> out)\<rparr>]\<rparr>,
                          None))))"

definition MAX_STEPS_REACHED :: string where
  "MAX_STEPS_REACHED =
     ''The agent could not produce a final answer after multiple steps. The query may be too complex.''"

text \<open>\<^verbatim>\<open>for i in range(n)\<close> around the loop body, and the return after the loop.\<close>

fun agent_loop ::
  "'w agent_env \<Rightarrow> string \<Rightarrow> string \<Rightarrow> nat \<Rightarrow> 'w agent_state \<Rightarrow> 'w agent_state \<times> agent_outcome"
where
  "agent_loop env tool_defs user_query 0 st = (st, ErrorOutcome MAX_STEPS_REACHED)"
| "agent_loop env tool_defs user_query (Suc n) st =
     (case agent_step env tool_defs user_query st of
        (st', Some out) \<Rightarrow> (st', out)
      | (st', None) \<Rightarrow> agent_loop env tool_defs user_query n st')"

definition initial_state :: "'w \<Rightarrow> 'w agent_state" where
  "initial_state w = \<lparr>history = [], world = w, invoked = [], llm_calls = 0\<rparr>"

text \<open>\<^verbatim>\<open>run_agent(user_query)\<close>: the outcome, with the state the call ended in.\<close>

definition run_agent :: "'w agent_env \<Rightarrow> string \<Rightarrow> 'w \<Rightarrow> 'w agent_state \<times> agent_outcome" where
  "run_agent env user_query w =
     agent_loop env (get_tool_definitions (float_repr env) (registry env)) user_query MAX_STEPS
       (initial_state w)"

section \<open>A model of \<^verbatim>\<open>json.loads\<close>\<close>

text \<open>
  The loop and the parser above take \<^verbatim>\<open>json.loads\<close> as a parameter. The function below is a
  model of it, used to run the program on concrete texts: the JSON grammar as Python's
  decoder reads it in its default (strict) mode. Left out: the constants \<^verbatim>\<open>NaN\<close>,
  \<^verbatim>\<open>Infinity\<close> and \<^verbatim>\<open>-Infinity\<close>, and \<^verbatim>\<open>\u\<close> escapes of code points above 255, which this model
  rejects; a number with a fraction or an exponent is read as the rational it denotes.
\<close>

definition is_digit :: "char \<Rightarrow> bool" where
  "is_digit c = (48 \<le> (of_char c :: nat) \<and> (of_char c :: nat) \<le> 57)"

definition is_letter :: "char \<Rightarrow> bool" where
  "is_letter c =
     ((65 \<le> (of_char c :: nat) \<and> (of_char c :: nat) \<le> 90) \<or>
      (97 \<le> (of_char c :: nat) \<and> (of_char c :: nat) \<le> 122))"

definition is_json_space :: "char \<Rightarrow> bool" where
  "is_json_space c = (c = CHR 0x20 \<or> c = CHR 0x09 \<or> c = CHR 0x0A \<or> c = CHR 0x0D)"

fun digits_val :: "nat \<Rightarrow> string \<Rightarrow> nat" where
  "digits_val acc [] = acc"
| "digits_val acc (c # cs) = digits_val (acc * 10 + (of_char c - 48)) cs"

text \<open>
  A number: \<^verbatim>\<open>-?(0|[1-9][0-9]*)(\.[0-9]+)?([eE][-+]?[0-9]+)?\<close>. It is an \<^verbatim>\<open>int\<close> when it has
  neither fraction nor exponent, and a \<^verbatim>\<open>float\<close> otherwise.
\<close>

fun fraction_part :: "string \<Rightarrow> (string option \<times> string) option" where
  "fraction_part [] = Some (None, [])"
| "fraction_part (c # cs) =
     (if c = CHR ''.''
      then (if takeWhile is_digit cs = [] then None
            else Some (Some (takeWhile is_digit cs), dropWhile is_digit cs))
      else Some (None, c # cs))"

definition exponent_digits :: "bool \<Rightarrow> string \<Rightarrow> int option option" where
  "exponent_digits neg ds =
     (if ds \<noteq> [] \<and> list_all is_digit ds
      then Some (Some ((if neg then - 1 else 1) * int (digits_val 0 ds)))
      else None)"

fun exponent_part :: "string \<Rightarrow> int option option" where
  "exponent_part [] = Some None"
| "exponent_part (c # cs) =
     (if c = CHR ''e'' \<or> c = CHR ''E''
      then (case cs of
              [] \<Rightarrow> None
            | d # ds \<Rightarrow>
                if d = CHR ''+'' then exponent_digits False ds
                else if d = CHR ''-'' then exponent_digits True ds
                else exponent_digits False cs)
      else None)"

definition number_value :: "string \<Rightarrow> json option" where
  "number_value s =
     (let neg = (s \<noteq> [] \<and> hd s = CHR ''-'');
          r0 = (if neg then tl s else s);
          ip = takeWhile is_digit r0;
          sign = (if neg then - 1 else 1)
      in if ip = [] \<or> (length ip > 1 \<and> hd ip = CHR ''0'') then None
         else
           (case fraction_part (dropWhile is_digit r0) of
              None \<Rightarrow> None
            | Some (fp, r2) \<Rightarrow>
                (case exponent_part r2 of
                   None \<Rightarrow> None
                 | Some ex \<Rightarrow>
                     if fp = None \<and> ex = None
                     then Some (JInt (sign * int (digits_val 0 ip)))
                     else Some (JFloat
                       (of_int sign *
                        (of_nat (digits_val 0 ip) +
                         (case fp of None \<Rightarrow> 0
                          | Some f \<Rightarrow> of_nat (digits_val 0 f) / 10 ^ length f)) *
                        (case ex of None \<Rightarrow> 1
                         | Some e \<Rightarrow> if e < 0 then 1 / 10 ^ nat (- e) else 10 ^ nat e))))))"

definition word_value :: "string \<Rightarrow> json option" where
  "word_value w =
     (if w = ''true'' then Some (JBool True)
      else if w = ''false'' then Some (JBool False)
      else if w = ''null'' then Some JNull
      else None)"

text \<open>The lexer: one character at a time, with the tokens read so far in reverse.\<close>

datatype token =
    TLBrace | TRBrace | TLBracket | TRBracket | TColon | TComma
  | TString string | TNumber string | TWord string

datatype lex_mode =
    LIdle
  | LString string
  | LEscape string
  | LUnicode string nat nat
  | LNumber string
  | LWord string

definition hex_val :: "char \<Rightarrow> nat option" where
  "hex_val c =
     (let n = (of_char c :: nat)
      in if 48 \<le> n \<and> n \<le> 57 then Some (n - 48)
         else if 97 \<le> n \<and> n \<le> 102 then Some (n - 87)
         else if 65 \<le> n \<and> n \<le> 70 then Some (n - 55)
         else None)"

definition idle_step :: "token list \<Rightarrow> char \<Rightarrow> (lex_mode \<times> token list) option" where
  \<open>idle_step acc c =
     (if is_json_space c then Some (LIdle, acc)
      else if c = CHR ''{'' then Some (LIdle, TLBrace # acc)
      else if c = CHR ''}'' then Some (LIdle, TRBrace # acc)
      else if c = CHR ''['' then Some (LIdle, TLBracket # acc)
      else if c = CHR '']'' then Some (LIdle, TRBracket # acc)
      else if c = CHR '':'' then Some (LIdle, TColon # acc)
      else if c = CHR '','' then Some (LIdle, TComma # acc)
      else if c = CHR ''"'' then Some (LString [], acc)
      else if is_digit c \<or> c = CHR ''-'' then Some (LNumber [c], acc)
      else if is_letter c then Some (LWord [c], acc)
      else None)\<close>

definition escaped_char :: "char \<Rightarrow> char option" where
  \<open>escaped_char c =
     (if c = CHR ''"'' then Some (CHR ''"'')
      else if c = bslash then Some bslash
      else if c = CHR ''/'' then Some (CHR ''/'')
      else if c = CHR ''b'' then Some (CHR 0x08)
      else if c = CHR ''f'' then Some (CHR 0x0C)
      else if c = CHR ''n'' then Some (CHR 0x0A)
      else if c = CHR ''r'' then Some (CHR 0x0D)
      else if c = CHR ''t'' then Some (CHR 0x09)
      else None)\<close>

definition is_number_char :: "char \<Rightarrow> bool" where
  "is_number_char c =
     (is_digit c \<or> c = CHR ''.'' \<or> c = CHR ''e'' \<or> c = CHR ''E'' \<or> c = CHR ''+'' \<or> c = CHR ''-'')"

fun lex_step :: "lex_mode \<Rightarrow> token list \<Rightarrow> char \<Rightarrow> (lex_mode \<times> token list) option" where
  \<open>lex_step LIdle acc c = idle_step acc c\<close>
| \<open>lex_step (LString s) acc c =
     (if c = CHR ''"'' then Some (LIdle, TString (rev s) # acc)
      else if c = bslash then Some (LEscape s, acc)
      else if (of_char c :: nat) < 32 then None
      else Some (LString (c # s), acc))\<close>
| \<open>lex_step (LEscape s) acc c =
     (if c = CHR ''u'' then Some (LUnicode s 4 0, acc)
      else (case escaped_char c of
              None \<Rightarrow> None
            | Some x \<Rightarrow> Some (LString (x # s), acc)))\<close>
| \<open>lex_step (LUnicode s k v) acc c =
     (case hex_val c of
        None \<Rightarrow> None
      | Some h \<Rightarrow>
          if k \<le> 1
          then (if v * 16 + h < 256 then Some (LString (char_of (v * 16 + h) # s), acc)
                else None)
          else Some (LUnicode s (k - 1) (v * 16 + h), acc))\<close>
| \<open>lex_step (LNumber n) acc c =
     (if is_number_char c then Some (LNumber (c # n), acc)
      else idle_step (TNumber (rev n) # acc) c)\<close>
| \<open>lex_step (LWord w) acc c =
     (if is_letter c then Some (LWord (c # w), acc)
      else idle_step (TWord (rev w) # acc) c)\<close>

fun lex_finish :: "lex_mode \<Rightarrow> token list \<Rightarrow> token list option" where
  "lex_finish LIdle acc = Some (rev acc)"
| "lex_finish (LNumber n) acc = Some (rev (TNumber (rev n) # acc))"
| "lex_finish (LWord w) acc = Some (rev (TWord (rev w) # acc))"
| "lex_finish m acc = None"

fun lex_run :: "lex_mode \<Rightarrow> token list \<Rightarrow> string \<Rightarrow> token list option" where
  "lex_run m acc [] = lex_finish m acc"
| "lex_run m acc (c # cs) =
     (case lex_step m acc c of
        None \<Rightarrow> None
      | Some (m', acc') \<Rightarrow> lex_run m' acc' cs)"

text \<open>
  The parser: one token at a time, with a stack of the arrays and objects that are open.
  A frame holds the members read so far, in reverse; \<open>FKey\<close> is an object whose next
  value belongs to the key given.
\<close>

datatype frame =
    FArr "json list"
  | FObj "(string \<times> json) list"
  | FKey "(string \<times> json) list" string

datatype pmode =
    MValue | MArrStart | MObjStart | MKey | MColon | MArrNext | MObjNext | MDone json

fun after_value :: "json \<Rightarrow> frame list \<Rightarrow> (pmode \<times> frame list) option" where
  "after_value v [] = Some (MDone v, [])"
| "after_value v (FArr xs # fs) = Some (MArrNext, FArr (v # xs) # fs)"
| "after_value v (FKey kvs k # fs) = Some (MObjNext, FObj ((k, v) # kvs) # fs)"
| "after_value v (FObj kvs # fs) = None"

fun start_value :: "token \<Rightarrow> frame list \<Rightarrow> (pmode \<times> frame list) option" where
  "start_value (TString s) fs = after_value (JStr s) fs"
| "start_value (TNumber n) fs =
     (case number_value n of None \<Rightarrow> None | Some v \<Rightarrow> after_value v fs)"
| "start_value (TWord w) fs =
     (case word_value w of None \<Rightarrow> None | Some v \<Rightarrow> after_value v fs)"
| "start_value TLBrace fs = Some (MObjStart, FObj [] # fs)"
| "start_value TLBracket fs = Some (MArrStart, FArr [] # fs)"
| "start_value t fs = None"

fun close_array :: "frame list \<Rightarrow> (pmode \<times> frame list) option" where
  "close_array (FArr xs # fs) = after_value (JArr (rev xs)) fs"
| "close_array fs = None"

fun close_object :: "frame list \<Rightarrow> (pmode \<times> frame list) option" where
  "close_object (FObj kvs # fs) = after_value (JObj (rev kvs)) fs"
| "close_object fs = None"

fun open_key :: "string \<Rightarrow> frame list \<Rightarrow> (pmode \<times> frame list) option" where
  "open_key k (FObj kvs # fs) = Some (MColon, FKey kvs k # fs)"
| "open_key k fs = None"

fun parse_step :: "pmode \<Rightarrow> frame list \<Rightarrow> token \<Rightarrow> (pmode \<times> frame list) option" where
  "parse_step MValue fs t = start_value t fs"
| "parse_step MArrStart fs t = (if t = TRBracket then close_array fs else start_value t fs)"
| "parse_step MObjStart fs t =
     (case t of TRBrace \<Rightarrow> close_object fs | TString k \<Rightarrow> open_key k fs | _ \<Rightarrow> None)"
| "parse_step MKey fs t = (case t of TString k \<Rightarrow> open_key k fs | _ \<Rightarrow> None)"
| "parse_step MColon fs t = (if t = TColon then Some (MValue, fs) else None)"
| "parse_step MArrNext fs t =
     (case t of TComma \<Rightarrow> Some (MValue, fs) | TRBracket \<Rightarrow> close_array fs | _ \<Rightarrow> None)"
| "parse_step MObjNext fs t =
     (case t of TComma \<Rightarrow> Some (MKey, fs) | TRBrace \<Rightarrow> close_object fs | _ \<Rightarrow> None)"
| "parse_step (MDone v) fs t = None"

fun parse_run :: "pmode \<Rightarrow> frame list \<Rightarrow> token list \<Rightarrow> json option" where
  "parse_run m fs [] = (case m of MDone v \<Rightarrow> Some v | _ \<Rightarrow> None)"
| "parse_run m fs (t # ts) =
     (case parse_step m fs t of
        None \<Rightarrow> None
      | Some (m', fs') \<Rightarrow> parse_run m' fs' ts)"

definition py_json_loads :: "string \<Rightarrow> json option" where
  "py_json_loads s =
     (case lex_run LIdle [] s of
        None \<Rightarrow> None
      | Some ts \<Rightarrow> parse_run MValue [] ts)"

section \<open>The data tools\<close>

text \<open>
  What the tools read from outside the program is the \<open>world\<close>. This section has the two
  handlers \<^verbatim>\<open>get_live_rainfall_data\<close> and \<^verbatim>\<open>get_production_trend\<close> at the types their
  signatures declare (\<^verbatim>\<open>state: str\<close>, \<^verbatim>\<open>year: int\<close>, ...); the next section has all five
  handlers on any values, since Python does not check the annotations. Floats are
  idealised as rationals: a sum is the exact sum, and \<^verbatim>\<open>round(x, 2)\<close> rounds the exact value
  to two decimals, a tie going to the even digit.
\<close>

definition round_half_even :: "rat \<Rightarrow> int" where
  "round_half_even x =
     (let f = \<lfloor>x\<rfloor>; d = x - of_int f
      in if d < 1 / 2 then f else if 1 / 2 < d then f + 1 else if even f then f else f + 1)"

definition py_round2 :: "rat \<Rightarrow> rat" where
  "py_round2 x = of_int (round_half_even (x * 100)) / 100"

text \<open>
  What lines 116 to 138 of \<^verbatim>\<open>get_live_rainfall_data\<close> come to for a state and a year once
  the request is made: an exception raised anywhere in the \<^verbatim>\<open>try\<close> block, an answer
  without records, no row for that state and year (with the list \<^verbatim>\<open>available\<close> as the
  f-string prints it), or the total and the monthly mean of the first matching row.
\<close>

datatype rain_lookup =
    RainRaised exn
  | NoRecords
  | NoMatch string
  | RainRow rat rat

text \<open>
  A row of the agriculture table after the cleaning in \<^verbatim>\<open>get_agri_data\<close>, and the table with
  the names of its columns. A missing text value (\<^verbatim>\<open>NaN\<close>) is \<open>None\<close>.
\<close>

record agri_row =
  a_state :: "string option"
  a_district :: "string option"
  a_crop :: "string option"
  a_year :: int
  production_tonnes :: rat

record agri_frame =
  df_columns :: "string list"
  df_rows :: "agri_row list"

text \<open>
  The world of the tools.
  \<^item> \<open>LOCAL_CSV_PATH\<close>: the module constant of that name, fixed when the module is loaded.
  \<^item> \<open>http_requests\<close>: how many times \<^verbatim>\<open>requests.get\<close> was called (not in the program; it
    records what the program did).
  \<^item> \<open>rainfall_api\<close>: what the rainfall service and the processing of its answer give
    for a text and an integer; \<open>rainfall_api_any\<close>: the same for other values.
  \<^item> \<open>csv_file\<close>: \<open>None\<close> when no file exists at \<open>LOCAL_CSV_PATH\<close>; otherwise the exception
    that reading or cleaning it raises, or the cleaned table.
  \<^item> \<open>df_agri\<close>: the module variable \<^verbatim>\<open>_df_agri\<close>, the cache of the table.
  \<^item> \<open>str_contains\<close>: \<^verbatim>\<open>Series.str.contains(pat, case=False, na=False)\<close> for a pattern that
    is a text: the exception it raises (the pattern is read as a regular expression), or
    the test it applies to each text value; \<open>str_contains_any\<close>: the same for a pattern
    that is not a text.
  \<^item> \<open>top_crops\<close>: \<^verbatim>\<open>groupby("crop")\<close>, sum, sort descending, \<^verbatim>\<open>head(top_n)\<close> and
    \<^verbatim>\<open>to_dict("records")\<close> on the rows given, for the value of \<^verbatim>\<open>top_n\<close> given.
  \<^item> \<open>first_district\<close>: \<^verbatim>\<open>groupby("district")\<close>, sum and sort (ascending when the flag is
    set) on the rows given, then \<^verbatim>\<open>iloc[0].to_dict()\<close>: of the first row, if any, the values
    under \<^verbatim>\<open>district\<close> and under \<^verbatim>\<open>production_tonnes\<close>.
  \<^item> \<open>int_of_text\<close>: \<^verbatim>\<open>int(s)\<close> for a text: the integer, or the \<^verbatim>\<open>ValueError\<close> raised.
  \<^item> \<open>str_of\<close>: \<^verbatim>\<open>str(v)\<close>, as an f-string prints a float, a list or a dictionary.
\<close>

record world =
  LOCAL_CSV_PATH :: string
  http_requests :: nat
  rainfall_api :: "string \<Rightarrow> int \<Rightarrow> rain_lookup"
  csv_file :: "(exn + agri_frame) option"
  df_agri :: "agri_frame option"
  str_contains :: "string \<Rightarrow> exn + (string \<Rightarrow> bool)"
  top_crops :: "agri_row list \<Rightarrow> json \<Rightarrow> exn + json list"
  first_district :: "agri_row list \<Rightarrow> bool \<Rightarrow> exn + (json \<times> json) option"
  rainfall_api_any :: "json \<Rightarrow> json \<Rightarrow> rain_lookup"
  str_contains_any :: "json \<Rightarrow> exn + (string \<Rightarrow> bool)"
  int_of_text :: "string \<Rightarrow> exn + int"
  str_of :: "json \<Rightarrow> string"

definition RAINFALL_API_URL :: string where
  "RAINFALL_API_URL = ''https://api.data.gov.in/resource/8e0bd482-4aba-4d99-9cb9-ff124f6f1c2f''"

definition RAINFALL_SOURCE_NAME :: string where
  "RAINFALL_SOURCE_NAME = ''data.gov.in (Rainfall 1901-2017): '' @ RAINFALL_API_URL"

definition AGRICULTURE_SOURCE_NAME :: "world \<Rightarrow> string" where
  "AGRICULTURE_SOURCE_NAME w = ''data.gov.in (Crop Production): '' @ LOCAL_CSV_PATH w"

text \<open>\<^verbatim>\<open>get_agri_data()\<close>: the cached table, or the file read and then cached.\<close>

definition get_agri_data :: "world \<Rightarrow> (exn + agri_frame) \<times> world" where
  "get_agri_data w =
     (case df_agri w of
        Some df \<Rightarrow> (Inr df, w)
      | None \<Rightarrow>
          (case csv_file w of
             None \<Rightarrow> (Inl (''CSV not found at '' @ LOCAL_CSV_PATH w), w)
           | Some (Inl e) \<Rightarrow> (Inl e, w)
           | Some (Inr df) \<Rightarrow> (Inr df, w\<lparr>df_agri := Some df\<rparr>)))"

subsection \<open>Rainfall of one year, for a text and an integer\<close>

definition get_live_rainfall_data :: "string \<Rightarrow> int \<Rightarrow> world \<Rightarrow> py_dict \<times> world" where
  "get_live_rainfall_data state year w =
     (if \<not> (1901 \<le> year \<and> year \<le> 2017)
      then ([(''error'', JStr (''Invalid year '' @ py_str_int year @
                     ''. Data is only available from 1901 to 2017.'')),
                  (''source'', JStr RAINFALL_SOURCE_NAME)], w)
      else
        (case rainfall_api w state year of
           RainRaised e \<Rightarrow>
             [(''error'', JStr (''Unexpected error in rainfall API: '' @ e)),
                   (''source'', JStr RAINFALL_SOURCE_NAME)]
         | NoRecords \<Rightarrow>
             [(''error'', JStr ''No rainfall records returned by API.''),
                   (''source'', JStr RAINFALL_SOURCE_NAME)]
         | NoMatch available \<Rightarrow>
             [(''error'', JStr (''No data for '' @ state @ '' in '' @ py_str_int year @
                      ''. Available years for this state: '' @ available)),
                   (''source'', JStr RAINFALL_SOURCE_NAME)]
         | RainRow total_mm avg_mm \<Rightarrow>
             [(''state'', JStr state),
                   (''year'', JInt year),
                   (''total_rainfall_mm'', JFloat (py_round2 total_mm)),
                   (''average_monthly_rainfall_mm'', JFloat (py_round2 avg_mm)),
                   (''source'', JStr RAINFALL_SOURCE_NAME)],
         w\<lparr>http_requests := Suc (http_requests w)\<rparr>))"

subsection \<open>Reading the agriculture table\<close>

text \<open>\<^verbatim>\<open>str(KeyError(k))\<close>, raised by \<^verbatim>\<open>df[k]\<close> for a column that the table does not have.\<close>

definition key_error :: "string \<Rightarrow> exn" where
  "key_error k = [CHR 0x27] @ k @ [CHR 0x27]"

text \<open>A test of \<open>str_contains\<close> on a value that may be missing (\<^verbatim>\<open>na=False\<close>).\<close>

definition row_matches :: "(string \<Rightarrow> bool) \<Rightarrow> string option \<Rightarrow> bool" where
  "row_matches m v = (case v of None \<Rightarrow> False | Some s \<Rightarrow> m s)"

text \<open>
  \<^verbatim>\<open>df["state"].str.contains(state, ...) & (df["year"] == year)\<close>, in the order in which
  Python evaluates it.
\<close>

definition state_year_mask ::
  "world \<Rightarrow> agri_frame \<Rightarrow> string \<Rightarrow> int \<Rightarrow> exn + (agri_row \<Rightarrow> bool)"
where
  "state_year_mask w df state year =
     (if ''state'' \<notin> set (df_columns df) then Inl (key_error ''state'')
      else
        (case str_contains w state of
           Inl e \<Rightarrow> Inl e
         | Inr m \<Rightarrow>
             if ''year'' \<notin> set (df_columns df) then Inl (key_error ''year'')
             else Inr (\<lambda>r. row_matches m (a_state r) \<and> a_year r = year)))"

text \<open>\<^verbatim>\<open>frame["crop"].str.contains(crop, ...)\<close>.\<close>

definition crop_mask :: "world \<Rightarrow> agri_frame \<Rightarrow> string \<Rightarrow> exn + (agri_row \<Rightarrow> bool)" where
  "crop_mask w df crop =
     (if ''crop'' \<notin> set (df_columns df) then Inl (key_error ''crop'')
      else
        (case str_contains w crop of
           Inl e \<Rightarrow> Inl e
         | Inr m \<Rightarrow> Inr (\<lambda>r. row_matches m (a_crop r))))"

text \<open>The mask of three conditions that two of the tools use.\<close>

definition state_year_crop_mask ::
  "world \<Rightarrow> agri_frame \<Rightarrow> string \<Rightarrow> int \<Rightarrow> string \<Rightarrow> exn + (agri_row \<Rightarrow> bool)"
where
  "state_year_crop_mask w df state year crop =
     (case state_year_mask w df state year of
        Inl e \<Rightarrow> Inl e
      | Inr m1 \<Rightarrow>
          (case crop_mask w df crop of
             Inl e \<Rightarrow> Inl e
           | Inr m2 \<Rightarrow> Inr (\<lambda>r. m1 r \<and> m2 r)))"

definition total_production :: "agri_row list \<Rightarrow> rat" where
  "total_production rs = sum_list (map production_tonnes rs)"

text \<open>A \<^verbatim>\<open>try\<close> block whose handler returns the error mapping with the given prefix.\<close>

definition agri_guard ::
  "string \<Rightarrow> (world \<Rightarrow> agri_frame \<Rightarrow> exn + py_dict) \<Rightarrow> world \<Rightarrow> py_dict \<times> world"
where
  "agri_guard prefix body w =
     (case get_agri_data w of
        (Inl e, w') \<Rightarrow>
          ([(''error'', JStr (prefix @ e)),
                 (''source'', JStr (AGRICULTURE_SOURCE_NAME w'))], w')
      | (Inr df, w') \<Rightarrow>
          (case body w' df of
             Inl e \<Rightarrow>
               ([(''error'', JStr (prefix @ e)),
                      (''source'', JStr (AGRICULTURE_SOURCE_NAME w'))], w')
           | Inr result \<Rightarrow> (result, w')))"

subsection \<open>Production over a range of years, for texts and integers\<close>

text \<open>One pass of the loop over the years: the total of the rows of that year.\<close>

definition year_production ::
  "world \<Rightarrow> agri_frame \<Rightarrow> string \<Rightarrow> string \<Rightarrow> int \<Rightarrow> exn + rat"
where
  "year_production w df state crop year =
     (case state_year_crop_mask w df state year crop of
        Inl e \<Rightarrow> Inl e
      | Inr m \<Rightarrow>
          (let year_data = filter m (df_rows df)
           in Inr (if year_data = [] then 0 else total_production year_data)))"

fun production_trend_loop ::
  "world \<Rightarrow> agri_frame \<Rightarrow> string \<Rightarrow> string \<Rightarrow> int list \<Rightarrow> exn + json list"
where
  "production_trend_loop w df state crop [] = Inr []"
| "production_trend_loop w df state crop (year # years) =
     (case year_production w df state crop year of
        Inl e \<Rightarrow> Inl e
      | Inr tonnes \<Rightarrow>
          (case production_trend_loop w df state crop years of
             Inl e \<Rightarrow> Inl e
           | Inr trend \<Rightarrow>
               Inr (JObj [(''year'', JInt year),
                          (''production_tonnes'', JFloat (py_round2 tonnes))] # trend)))"

definition production_trend_body ::
  "world \<Rightarrow> agri_frame \<Rightarrow> string \<Rightarrow> string \<Rightarrow> int \<Rightarrow> int \<Rightarrow> exn + py_dict"
where
  "production_trend_body w df state crop start_year end_year =
     (case production_trend_loop w df state crop [start_year..end_year] of
        Inl e \<Rightarrow> Inl e
      | Inr trend \<Rightarrow>
          Inr ([(''state'', JStr state),
                     (''crop'', JStr crop),
                     (''trend'', JArr trend),
                     (''source'', JStr (AGRICULTURE_SOURCE_NAME w))]))"

definition get_production_trend ::
  "string \<Rightarrow> string \<Rightarrow> int \<Rightarrow> int \<Rightarrow> world \<Rightarrow> py_dict \<times> world"
where
  "get_production_trend state crop start_year end_year w =
     agri_guard ''Unexpected error in get_production_trend: ''
       (\<lambda>w' df. production_trend_body w' df state crop start_year end_year) w"

section \<open>The handlers on any values\<close>

text \<open>
  Python does not check the annotations of a signature: a handler runs on whatever values
  the keyword mapping binds to its parameters, and the values that \<^verbatim>\<open>json.loads\<close> builds are
  those of the type \<open>json\<close>. This section has the five handlers on such values. Error texts
  are those of CPython 3.11.
\<close>

subsection \<open>Operations of Python on a value\<close>

text \<open>\<^verbatim>\<open>bool(v)\<close>, as \<^verbatim>\<open>if crop:\<close> tests it.\<close>

fun py_truthy :: "json \<Rightarrow> bool" where
  "py_truthy JNull = False"
| "py_truthy (JBool b) = b"
| "py_truthy (JInt i) = (i \<noteq> 0)"
| "py_truthy (JFloat r) = (r \<noteq> 0)"
| "py_truthy (JStr s) = (s \<noteq> [])"
| "py_truthy (JArr xs) = (xs \<noteq> [])"
| "py_truthy (JObj kvs) = (kvs \<noteq> [])"

text \<open>\<^verbatim>\<open>int(x)\<close> for a float: the fraction is dropped.\<close>

definition py_trunc :: "rat \<Rightarrow> int" where
  "py_trunc r = (if 0 \<le> r then \<lfloor>r\<rfloor> else \<lceil>r\<rceil>)"

text \<open>A text between single quotes.\<close>

definition quoted :: "string \<Rightarrow> string" where
  "quoted s = [CHR 0x27] @ s @ [CHR 0x27]"

definition int_type_error :: "json \<Rightarrow> exn" where
  "int_type_error v =
     ''int() argument must be a string, a bytes-like object or a real number, not '' @
     quoted (py_type_name v)"

text \<open>\<^verbatim>\<open>int(v)\<close>: the integer, or the text of the exception raised.\<close>

fun py_int :: "world \<Rightarrow> json \<Rightarrow> exn + int" where
  "py_int w (JInt i) = Inr i"
| "py_int w (JBool b) = Inr (if b then 1 else 0)"
| "py_int w (JFloat r) = Inr (py_trunc r)"
| "py_int w (JStr s) = int_of_text w s"
| "py_int w v = Inl (int_type_error v)"

text \<open>\<^verbatim>\<open>str(v)\<close>, which is what an f-string prints for \<^verbatim>\<open>{v}\<close>.\<close>

fun py_str :: "world \<Rightarrow> json \<Rightarrow> string" where
  "py_str w (JStr s) = s"
| "py_str w (JInt i) = py_str_int i"
| "py_str w (JBool b) = (if b then ''True'' else ''False'')"
| "py_str w JNull = ''None''"
| "py_str w v = str_of w v"

text \<open>
  \<^verbatim>\<open>round(v, 2)\<close>: an integer is returned as it is, a Boolean as the integer it stands for;
  a value of another type has no \<^verbatim>\<open>__round__\<close>.
\<close>

fun py_round2_value :: "json \<Rightarrow> exn + json" where
  "py_round2_value (JFloat r) = Inr (JFloat (py_round2 r))"
| "py_round2_value (JInt i) = Inr (JInt i)"
| "py_round2_value (JBool b) = Inr (JInt (if b then 1 else 0))"
| "py_round2_value v =
     Inl (''type '' @ py_type_name v @ '' doesn'' @ [CHR 0x27] @ ''t define __round__ method'')"

text \<open>\<^verbatim>\<open>Series.str.contains(pat, case=False, na=False)\<close> for any pattern.\<close>

definition contains_pattern :: "world \<Rightarrow> json \<Rightarrow> exn + (string \<Rightarrow> bool)" where
  "contains_pattern w pat =
     (case pat of JStr s \<Rightarrow> str_contains w s | _ \<Rightarrow> str_contains_any w pat)"

subsection \<open>Tool 1: rainfall of one year\<close>

text \<open>
  \<^verbatim>\<open>1901 <= year <= 2017\<close>, which stands before the \<^verbatim>\<open>try\<close>. An integer and a float are
  compared as numbers; \<^verbatim>\<open>True\<close> and \<^verbatim>\<open>False\<close> are the integers 1 and 0; a value of another
  type cannot be compared with an integer, and the \<^verbatim>\<open>TypeError\<close> leaves the handler.
\<close>

fun year_in_range :: "json \<Rightarrow> exn + bool" where
  "year_in_range (JInt i) = Inr (1901 \<le> i \<and> i \<le> 2017)"
| "year_in_range (JFloat r) = Inr (1901 \<le> r \<and> r \<le> 2017)"
| "year_in_range (JBool b) = Inr False"
| "year_in_range v =
     Inl (quoted ''<='' @ '' not supported between instances of '' @ quoted ''int'' @
          '' and '' @ quoted (py_type_name v))"

text \<open>What the request and the processing of its answer give, for any state and year.\<close>

definition rain_lookup_of :: "world \<Rightarrow> json \<Rightarrow> json \<Rightarrow> rain_lookup" where
  "rain_lookup_of w state year =
     (case (state, year) of
        (JStr s, JInt y) \<Rightarrow> rainfall_api w s y
      | _ \<Rightarrow> rainfall_api_any w state year)"

definition get_live_rainfall_data_any ::
  "json \<Rightarrow> json \<Rightarrow> world \<Rightarrow> (exn + py_dict) \<times> world"
where
  "get_live_rainfall_data_any state year w =
     (case year_in_range year of
        Inl e \<Rightarrow> (Inl e, w)
      | Inr False \<Rightarrow>
          (Inr [(''error'', JStr (''Invalid year '' @ py_str w year @
                     ''. Data is only available from 1901 to 2017.'')),
                (''source'', JStr RAINFALL_SOURCE_NAME)], w)
      | Inr True \<Rightarrow>
          (Inr (case rain_lookup_of w state year of
                  RainRaised e \<Rightarrow>
                    [(''error'', JStr (''Unexpected error in rainfall API: '' @ e)),
                     (''source'', JStr RAINFALL_SOURCE_NAME)]
                | NoRecords \<Rightarrow>
                    [(''error'', JStr ''No rainfall records returned by API.''),
                     (''source'', JStr RAINFALL_SOURCE_NAME)]
                | NoMatch available \<Rightarrow>
                    [(''error'', JStr (''No data for '' @ py_str w state @ '' in '' @
                        py_str w year @ ''. Available years for this state: '' @ available)),
                     (''source'', JStr RAINFALL_SOURCE_NAME)]
                | RainRow total_mm avg_mm \<Rightarrow>
                    (case py_int w year of
                       Inl e \<Rightarrow>
                         [(''error'', JStr (''Unexpected error in rainfall API: '' @ e)),
                          (''source'', JStr RAINFALL_SOURCE_NAME)]
                     | Inr y \<Rightarrow>
                         [(''state'', state),
                          (''year'', JInt y),
                          (''total_rainfall_mm'', JFloat (py_round2 total_mm)),
                          (''average_monthly_rainfall_mm'', JFloat (py_round2 avg_mm)),
                          (''source'', JStr RAINFALL_SOURCE_NAME)])),
           w\<lparr>http_requests := Suc (http_requests w)\<rparr>))"

subsection \<open>Masks on the agriculture table\<close>

text \<open>
  \<^verbatim>\<open>df["state"].str.contains(state, ...) & (df["year"] == y)\<close>, in the order in which Python
  evaluates it. The operand \<^verbatim>\<open>y\<close> is \<^verbatim>\<open>int(year)\<close> in two of the handlers, and may raise.
\<close>

definition state_year_mask_any ::
  "world \<Rightarrow> agri_frame \<Rightarrow> json \<Rightarrow> exn + int \<Rightarrow> exn + (agri_row \<Rightarrow> bool)"
where
  "state_year_mask_any w df state y =
     (if ''state'' \<notin> set (df_columns df) then Inl (key_error ''state'')
      else
        (case contains_pattern w state of
           Inl e \<Rightarrow> Inl e
         | Inr m \<Rightarrow>
             if ''year'' \<notin> set (df_columns df) then Inl (key_error ''year'')
             else
               (case y of
                  Inl e \<Rightarrow> Inl e
                | Inr year \<Rightarrow> Inr (\<lambda>r. row_matches m (a_state r) \<and> a_year r = year))))"

text \<open>\<^verbatim>\<open>frame["crop"].str.contains(crop, ...)\<close>.\<close>

definition crop_mask_any :: "world \<Rightarrow> agri_frame \<Rightarrow> json \<Rightarrow> exn + (agri_row \<Rightarrow> bool)" where
  "crop_mask_any w df crop =
     (if ''crop'' \<notin> set (df_columns df) then Inl (key_error ''crop'')
      else
        (case contains_pattern w crop of
           Inl e \<Rightarrow> Inl e
         | Inr m \<Rightarrow> Inr (\<lambda>r. row_matches m (a_crop r))))"

definition state_year_crop_mask_any ::
  "world \<Rightarrow> agri_frame \<Rightarrow> json \<Rightarrow> exn + int \<Rightarrow> json \<Rightarrow> exn + (agri_row \<Rightarrow> bool)"
where
  "state_year_crop_mask_any w df state y crop =
     (case state_year_mask_any w df state y of
        Inl e \<Rightarrow> Inl e
      | Inr m1 \<Rightarrow>
          (case crop_mask_any w df crop of
             Inl e \<Rightarrow> Inl e
           | Inr m2 \<Rightarrow> Inr (\<lambda>r. m1 r \<and> m2 r)))"

subsection \<open>Tool 2: agriculture data of one state and year\<close>

text \<open>The body of the \<^verbatim>\<open>try\<close> block once the table is there.\<close>

definition local_agriculture_body ::
  "world \<Rightarrow> agri_frame \<Rightarrow> json \<Rightarrow> json \<Rightarrow> json \<Rightarrow> json \<Rightarrow> exn + py_dict"
where
  "local_agriculture_body w df state year crop top_n =
     (case state_year_mask_any w df state (py_int w year) of
        Inl e \<Rightarrow> Inl e
      | Inr m \<Rightarrow>
          (let filtered = filter m (df_rows df)
           in if filtered = []
              then Inr [(''error'', JStr (''No agriculture data found for '' @ py_str w state @
                                 '' in '' @ py_str w year @ ''.'')),
                        (''source'', JStr (AGRICULTURE_SOURCE_NAME w))]
              else if py_truthy crop
              then
                (case crop_mask_any w df crop of
                   Inl e \<Rightarrow> Inl e
                 | Inr cm \<Rightarrow>
                     (let crop_data = filter cm filtered
                      in if crop_data = []
                         then Inr [(''error'', JStr (''No data found for crop '' @
                                      quoted (py_str w crop) @ '' in '' @
                                      py_str w state @ '' in '' @ py_str w year @ ''.'')),
                                   (''source'', JStr (AGRICULTURE_SOURCE_NAME w))]
                         else Inr [(''state'', state),
                                   (''year'', year),
                                   (''crop'', crop),
                                   (''total_production_tonnes'',
                                      JFloat (py_round2 (total_production crop_data))),
                                   (''source'', JStr (AGRICULTURE_SOURCE_NAME w))]))
              else
                (case top_crops w filtered top_n of
                   Inl e \<Rightarrow> Inl e
                 | Inr rows \<Rightarrow>
                     Inr [(''state'', state),
                          (''year'', year),
                          (''top_crops'', JArr rows),
                          (''source'', JStr (AGRICULTURE_SOURCE_NAME w))])))"

definition get_local_agriculture_data ::
  "json \<Rightarrow> json \<Rightarrow> json \<Rightarrow> json \<Rightarrow> world \<Rightarrow> py_dict \<times> world"
where
  "get_local_agriculture_data state year crop top_n w =
     agri_guard ''Unexpected error while reading CSV: ''
       (\<lambda>w' df. local_agriculture_body w' df state year crop top_n) w"

subsection \<open>Tool 3: the district with the highest or lowest production\<close>

definition district_body ::
  "world \<Rightarrow> agri_frame \<Rightarrow> json \<Rightarrow> json \<Rightarrow> json \<Rightarrow> json \<Rightarrow> exn + py_dict"
where
  "district_body w df state crop year sort_order =
     (if ''district'' \<notin> set (df_columns df)
      then Inr [(''error'', JStr ''District column not found in CSV.''),
                (''source'', JStr (AGRICULTURE_SOURCE_NAME w))]
      else
        (case state_year_crop_mask_any w df state (py_int w year) crop of
           Inl e \<Rightarrow> Inl e
         | Inr m \<Rightarrow>
             (let filtered = filter m (df_rows df)
              in if filtered = []
                 then Inr [(''error'', JStr (''No data found for '' @ py_str w crop @ '' in '' @
                                    py_str w state @ '' in '' @ py_str w year @ ''.'')),
                           (''source'', JStr (AGRICULTURE_SOURCE_NAME w))]
                 else
                   (case first_district w filtered (sort_order = JStr ''asc'') of
                      Inl e \<Rightarrow> Inl e
                    | Inr None \<Rightarrow>
                        Inr [(''error'', JStr (''No district data found for '' @
                                py_str w crop @ '' in '' @ py_str w state @ '' in '' @
                                py_str w year @ ''.'')),
                             (''source'', JStr (AGRICULTURE_SOURCE_NAME w))]
                    | Inr (Some (district, tonnes)) \<Rightarrow>
                        (case py_round2_value tonnes of
                           Inl e \<Rightarrow> Inl e
                         | Inr rounded \<Rightarrow>
                             Inr [(''state'', state),
                                  (''year'', year),
                                  (''crop'', crop),
                                  (if sort_order = JStr ''asc''
                                   then ''lowest_production_district''
                                   else ''highest_production_district'',
                                   JObj [(''district'', district),
                                         (''production_tonnes'', rounded)]),
                                  (''source'', JStr (AGRICULTURE_SOURCE_NAME w))])))))"

definition get_district_production ::
  "json \<Rightarrow> json \<Rightarrow> json \<Rightarrow> json \<Rightarrow> world \<Rightarrow> py_dict \<times> world"
where
  "get_district_production state crop year sort_order w =
     agri_guard ''Unexpected error in get_district_production: ''
       (\<lambda>w' df. district_body w' df state crop year sort_order) w"

subsection \<open>Tool 4: production over a range of years\<close>

definition year_production_any ::
  "world \<Rightarrow> agri_frame \<Rightarrow> json \<Rightarrow> json \<Rightarrow> int \<Rightarrow> exn + rat"
where
  "year_production_any w df state crop year =
     (case state_year_crop_mask_any w df state (Inr year) crop of
        Inl e \<Rightarrow> Inl e
      | Inr m \<Rightarrow>
          (let year_data = filter m (df_rows df)
           in Inr (if year_data = [] then 0 else total_production year_data)))"

fun production_trend_loop_any ::
  "world \<Rightarrow> agri_frame \<Rightarrow> json \<Rightarrow> json \<Rightarrow> int list \<Rightarrow> exn + json list"
where
  "production_trend_loop_any w df state crop [] = Inr []"
| "production_trend_loop_any w df state crop (year # years) =
     (case year_production_any w df state crop year of
        Inl e \<Rightarrow> Inl e
      | Inr tonnes \<Rightarrow>
          (case production_trend_loop_any w df state crop years of
             Inl e \<Rightarrow> Inl e
           | Inr trend \<Rightarrow>
               Inr (JObj [(''year'', JInt year),
                          (''production_tonnes'', JFloat (py_round2 tonnes))] # trend)))"

text \<open>
  The body of the \<^verbatim>\<open>try\<close> block once the table is there: \<^verbatim>\<open>int(start_year)\<close> and
  \<^verbatim>\<open>int(end_year)\<close>, then the loop.
\<close>

definition production_trend_body_any ::
  "world \<Rightarrow> agri_frame \<Rightarrow> json \<Rightarrow> json \<Rightarrow> json \<Rightarrow> json \<Rightarrow> exn + py_dict"
where
  "production_trend_body_any w df state crop start_year end_year =
     (case py_int w start_year of
        Inl e \<Rightarrow> Inl e
      | Inr first_year \<Rightarrow>
          (case py_int w end_year of
             Inl e \<Rightarrow> Inl e
           | Inr last_year \<Rightarrow>
               (case production_trend_loop_any w df state crop [first_year..last_year] of
                  Inl e \<Rightarrow> Inl e
                | Inr trend \<Rightarrow>
                    Inr [(''state'', state),
                         (''crop'', crop),
                         (''trend'', JArr trend),
                         (''source'', JStr (AGRICULTURE_SOURCE_NAME w))])))"

definition get_production_trend_any ::
  "json \<Rightarrow> json \<Rightarrow> json \<Rightarrow> json \<Rightarrow> world \<Rightarrow> py_dict \<times> world"
where
  "get_production_trend_any state crop start_year end_year w =
     agri_guard ''Unexpected error in get_production_trend: ''
       (\<lambda>w' df. production_trend_body_any w' df state crop start_year end_year) w"

subsection \<open>Tool 5: rainfall over a range of years\<close>

text \<open>
  The loop over the years, each an integer of the range. The handler has no \<^verbatim>\<open>try\<close>: an
  exception of a call of \<^verbatim>\<open>get_live_rainfall_data\<close> would leave the loop.
\<close>

fun rainfall_trend_loop ::
  "json \<Rightarrow> int list \<Rightarrow> world \<Rightarrow> (exn + json list) \<times> world"
where
  "rainfall_trend_loop state [] w = (Inr [], w)"
| "rainfall_trend_loop state (year # years) w =
     (case get_live_rainfall_data_any state (JInt year) w of
        (Inl e, w1) \<Rightarrow> (Inl e, w1)
      | (Inr result, w1) \<Rightarrow>
          (case rainfall_trend_loop state years w1 of
             (Inl e, w2) \<Rightarrow> (Inl e, w2)
           | (Inr trend, w2) \<Rightarrow>
               (Inr ((if dict_has result ''error''
                      then JObj [(''year'', JInt year),
                                 (''total_rainfall_mm'', JNull),
                                 (''note'', (case dict_get result ''error'' of Some v \<Rightarrow> v
                                             | None \<Rightarrow> JNull))]
                      else JObj [(''year'', JInt year),
                                 (''total_rainfall_mm'',
                                    (case dict_get result ''total_rainfall_mm'' of
                                       Some v \<Rightarrow> v
                                     | None \<Rightarrow> JNull))]) # trend), w2)))"

text \<open>
  \<^verbatim>\<open>int(start_year)\<close> and \<^verbatim>\<open>int(end_year)\<close> stand outside any \<^verbatim>\<open>try\<close>: what they raise leaves
  the handler.
\<close>

definition get_rainfall_trend ::
  "json \<Rightarrow> json \<Rightarrow> json \<Rightarrow> world \<Rightarrow> (exn + py_dict) \<times> world"
where
  "get_rainfall_trend state start_year end_year w =
     (case py_int w start_year of
        Inl e \<Rightarrow> (Inl e, w)
      | Inr first_year \<Rightarrow>
          (case py_int w end_year of
             Inl e \<Rightarrow> (Inl e, w)
           | Inr last_year \<Rightarrow>
               (case rainfall_trend_loop state [max 1901 first_year..min 2017 last_year] w of
                  (Inl e, w') \<Rightarrow> (Inl e, w')
                | (Inr trend, w') \<Rightarrow>
                    (Inr [(''state'', state),
                          (''trend'', JArr trend),
                          (''note'', JStr ''Rainfall data is limited to 1901-2017.''),
                          (''source'', JStr RAINFALL_SOURCE_NAME)], w'))))"

subsection \<open>The registry\<close>

text \<open>
  \<^verbatim>\<open>func(**args)\<close>: the keyword mapping is bound to the parameters of the handler. A keyword
  that is no parameter, or a parameter without default that is not given, raises
  \<^verbatim>\<open>TypeError\<close> before the body runs.
\<close>

fun name_list :: "string list \<Rightarrow> string" where
  "name_list [] = []"
| "name_list [a] = key_error a"
| "name_list [a, b] = key_error a @ '' and '' @ key_error b"
| "name_list ks = py_join '', '' (map key_error (butlast ks)) @ '', and '' @ key_error (last ks)"

definition check_keywords :: "string \<Rightarrow> string list \<Rightarrow> string list \<Rightarrow> py_dict \<Rightarrow> exn option" where
  "check_keywords name required optional kwargs =
     (let unexpected = filter (\<lambda>k. k \<notin> set (required @ optional)) (map fst kwargs);
          missing = filter (\<lambda>k. \<not> dict_has kwargs k) required
      in if unexpected \<noteq> []
         then Some (name @ ''() got an unexpected keyword argument '' @ key_error (hd unexpected))
         else if missing \<noteq> []
         then Some (name @ ''() missing '' @ str_nat (length missing) @
                    '' required positional argument'' @
                    (if length missing = 1 then [] else ''s'') @ '': '' @ name_list missing)
         else None)"

text \<open>
  The value bound to a parameter: that of the keyword, or the default of the signature.
  After \<open>check_keywords\<close> every parameter without default has a keyword. The value is
  passed to the body as it is, whatever its type.
\<close>

definition bound_arg :: "py_dict \<Rightarrow> string \<Rightarrow> json" where
  "bound_arg kwargs k = the (dict_get kwargs k)"

definition bound_arg_default :: "py_dict \<Rightarrow> string \<Rightarrow> json \<Rightarrow> json" where
  "bound_arg_default kwargs k d = (case dict_get kwargs k of None \<Rightarrow> d | Some v \<Rightarrow> v)"

text \<open>
  The result of a call as the loop receives it: the mapping of a handler that returned, or
  the exception that left it.
\<close>

definition returned :: "py_dict \<times> world \<Rightarrow> (exn + json) \<times> world" where
  "returned r = (Inr (JObj (fst r)), snd r)"

definition returned_or_raised :: "(exn + py_dict) \<times> world \<Rightarrow> (exn + json) \<times> world" where
  "returned_or_raised r =
     (case fst r of
        Inl e \<Rightarrow> (Inl e, snd r)
      | Inr result \<Rightarrow> (Inr (JObj result), snd r))"

definition call_get_live_rainfall_data :: "py_dict \<Rightarrow> world \<Rightarrow> (exn + json) \<times> world" where
  "call_get_live_rainfall_data kwargs w =
     (case check_keywords ''get_live_rainfall_data'' [''state'', ''year''] [] kwargs of
        Some e \<Rightarrow> (Inl e, w)
      | None \<Rightarrow>
          returned_or_raised
            (get_live_rainfall_data_any (bound_arg kwargs ''state'') (bound_arg kwargs ''year'')
               w))"

definition call_get_local_agriculture_data :: "py_dict \<Rightarrow> world \<Rightarrow> (exn + json) \<times> world" where
  "call_get_local_agriculture_data kwargs w =
     (case check_keywords ''get_local_agriculture_data'' [''state'', ''year'']
             [''crop'', ''top_n''] kwargs of
        Some e \<Rightarrow> (Inl e, w)
      | None \<Rightarrow>
          returned
            (get_local_agriculture_data (bound_arg kwargs ''state'') (bound_arg kwargs ''year'')
               (bound_arg_default kwargs ''crop'' JNull)
               (bound_arg_default kwargs ''top_n'' (JInt 5)) w))"

definition call_get_district_production :: "py_dict \<Rightarrow> world \<Rightarrow> (exn + json) \<times> world" where
  "call_get_district_production kwargs w =
     (case check_keywords ''get_district_production'' [''state'', ''crop'', ''year'']
             [''sort_order''] kwargs of
        Some e \<Rightarrow> (Inl e, w)
      | None \<Rightarrow>
          returned
            (get_district_production (bound_arg kwargs ''state'') (bound_arg kwargs ''crop'')
               (bound_arg kwargs ''year'')
               (bound_arg_default kwargs ''sort_order'' (JStr ''desc'')) w))"

definition call_get_production_trend :: "py_dict \<Rightarrow> world \<Rightarrow> (exn + json) \<times> world" where
  "call_get_production_trend kwargs w =
     (case check_keywords ''get_production_trend''
             [''state'', ''crop'', ''start_year'', ''end_year''] [] kwargs of
        Some e \<Rightarrow> (Inl e, w)
      | None \<Rightarrow>
          returned
            (get_production_trend_any (bound_arg kwargs ''state'') (bound_arg kwargs ''crop'')
               (bound_arg kwargs ''start_year'') (bound_arg kwargs ''end_year'') w))"

definition call_get_rainfall_trend :: "py_dict \<Rightarrow> world \<Rightarrow> (exn + json) \<times> world" where
  "call_get_rainfall_trend kwargs w =
     (case check_keywords ''get_rainfall_trend'' [''state'', ''start_year'', ''end_year'']
             [] kwargs of
        Some e \<Rightarrow> (Inl e, w)
      | None \<Rightarrow>
          returned_or_raised
            (get_rainfall_trend (bound_arg kwargs ''state'') (bound_arg kwargs ''start_year'')
               (bound_arg kwargs ''end_year'') w))"

text \<open>\<^verbatim>\<open>TOOLS\<close>, in the order in which the dictionary is written.\<close>

definition TOOLS :: "(string \<times> world tool_info) list" where
  \<open>TOOLS =
    [(''get_live_rainfall_data'',
      \<lparr>func = call_get_live_rainfall_data,
       desc = ''Get total/avg rainfall for a *single state* and *single year*. (Data 1901-2017 ONLY)'',
       schema = [(''state'', ''string''), (''year'', ''integer'')]\<rparr>),
     (''get_local_agriculture_data'',
      \<lparr>func = call_get_local_agriculture_data,
       desc = ''Get agriculture data for a *single state* and *single year*. Provide \'crop\' to get its total, or \'top_n\' to get a list of top crops.'',
       schema = [(''state'', ''string''), (''year'', ''integer''), (''crop'', ''string (optional)''),
                 (''top_n'', ''integer (optional, default 5)'')]\<rparr>),
     (''get_district_production'',
      \<lparr>func = call_get_district_production,
       desc = ''Finds the district with the highest (\'desc\') or lowest (\'asc\') production for a *specific crop*, *state*, and *year*.'',
       schema = [(''state'', ''string''), (''crop'', ''string''), (''year'', ''integer''),
                 (''sort_order'', ''string (\'desc\' or \'asc\', default \'desc\')'')]\<rparr>),
     (''get_production_trend'',
      \<lparr>func = call_get_production_trend,
       desc = ''Get a time-series list of production for *one crop* in *one state* over a *range of years*.'',
       schema = [(''state'', ''string''), (''crop'', ''string''), (''start_year'', ''integer''),
                 (''end_year'', ''integer'')]\<rparr>),
     (''get_rainfall_trend'',
      \<lparr>func = call_get_rainfall_trend,
       desc = ''Get a time-series list of total rainfall for *one state* over a *range of years*. (Data 1901-2017 ONLY)'',
       schema = [(''state'', ''string''), (''start_year'', ''integer''),
                 (''end_year'', ''integer'')]\<rparr>)]\<close>

section \<open>Example environments\<close>

text \<open>
  Reasoning clients used in the examples below: one that always returns the same text, and
  one whose call always raises. Both leave the world alone; they have no tools and a
  \<^verbatim>\<open>json.loads\<close> that rejects every text.
\<close>

definition echo_env :: "string \<Rightarrow> unit agent_env" where
  "echo_env raw =
     \<lparr>llm_call = (\<lambda>p w. (Inr raw, w)), json_loads = (\<lambda>s. None),
      float_repr = (\<lambda>r. ''0.0''), registry = []\<rparr>"

definition failing_env :: "unit agent_env" where
  "failing_env =
     \<lparr>llm_call = (\<lambda>p w. (Inl ''LLM call failed (langchain_openai.invoke): timeout'', w)),
      json_loads = (\<lambda>s. None), float_repr = (\<lambda>r. ''0.0''), registry = []\<rparr>"

text \<open>
  How Python prints a float that has at most two decimals and is below \<open>10\<^sup>1\<^sup>6\<close> in size,
  such as the results of \<^verbatim>\<open>round(x, 2)\<close>: \<^verbatim>\<open>0.0\<close>, \<^verbatim>\<open>1500.0\<close>, \<^verbatim>\<open>12.5\<close>, \<^verbatim>\<open>-3.14\<close>.
\<close>

definition two_decimals :: "rat \<Rightarrow> string" where
  "two_decimals r =
     (let n = round_half_even (r * 100); a = nat \<bar>n\<bar>
      in (if n < 0 then ''-'' else []) @ str_nat (a div 100) @ ''.'' @
         (if a mod 10 = 0 then [digit_char (a mod 100 div 10)]
          else [digit_char (a mod 100 div 10), digit_char (a mod 10)]))"

text \<open>
  A world for the tools: a small agriculture table at a path, a rainfall service that
  answers without records, and a text test that looks for the pattern as it is written,
  ignoring case (what \<^verbatim>\<open>str.contains\<close> does for a pattern without operators of regular
  expressions) and that raises for a pattern that is no text. Its \<^verbatim>\<open>int(s)\<close> reads a text
  of decimal digits and rejects every other text; its \<^verbatim>\<open>str(v)\<close> prints a float as above,
  and a list or a dictionary as JSON.
\<close>

definition to_lower :: "char \<Rightarrow> char" where
  "to_lower c =
     (case map_of (zip ''ABCDEFGHIJKLMNOPQRSTUVWXYZ'' ''abcdefghijklmnopqrstuvwxyz'') c of
        Some l \<Rightarrow> l
      | None \<Rightarrow> c)"

fun has_infix :: "string \<Rightarrow> string \<Rightarrow> bool" where
  "has_infix sub [] = (sub = [])"
| "has_infix sub (c # cs) = (py_startswith (c # cs) sub \<or> has_infix sub cs)"

definition plain_contains :: "string \<Rightarrow> exn + (string \<Rightarrow> bool)" where
  "plain_contains pat = Inr (\<lambda>s. has_infix (map to_lower pat) (map to_lower s))"

definition sample_rows :: "agri_row list" where
  "sample_rows =
     [\<lparr>a_state = Some ''Punjab'', a_district = Some ''Ludhiana'', a_crop = Some ''Wheat'',
       a_year = 2010, production_tonnes = 1200\<rparr>,
      \<lparr>a_state = Some ''Punjab'', a_district = Some ''Patiala'', a_crop = Some ''Wheat'',
       a_year = 2010, production_tonnes = 800\<rparr>,
      \<lparr>a_state = Some ''Punjab'', a_district = Some ''Ludhiana'', a_crop = Some ''Wheat'',
       a_year = 2012, production_tonnes = 1500\<rparr>,
      \<lparr>a_state = Some ''Haryana'', a_district = Some ''Karnal'', a_crop = Some ''Rice'',
       a_year = 2011, production_tonnes = 700\<rparr>]"

definition sample_frame :: agri_frame where
  "sample_frame =
     \<lparr>df_columns = [''state'', ''district'', ''crop'', ''year'', ''production'',
                    ''production_tonnes''],
      df_rows = sample_rows\<rparr>"

definition decimal_int :: "string \<Rightarrow> exn + int" where
  "decimal_int s =
     (if s \<noteq> [] \<and> list_all is_digit s then Inr (int (digits_val 0 s))
      else Inl (''invalid literal for int() with base 10: '' @ quoted s))"

definition sample_world :: world where
  "sample_world =
     \<lparr>LOCAL_CSV_PATH = ''/srv/app/data/agriculture_production.csv'',
      http_requests = 0,
      rainfall_api = (\<lambda>state year. NoRecords),
      csv_file = Some (Inr sample_frame),
      df_agri = None,
      str_contains = plain_contains,
      top_crops = (\<lambda>rows n. Inr []),
      first_district = (\<lambda>rows asc. Inr None),
      rainfall_api_any = (\<lambda>state year. NoRecords),
      str_contains_any = (\<lambda>pat. Inl ''first argument must be string or compiled pattern''),
      int_of_text = decimal_int,
      str_of = json_dumps two_decimals False\<rparr>"

text \<open>The same world on a machine where the file is missing.\<close>

definition world_without_csv :: world where
  "world_without_csv = sample_world\<lparr>csv_file := None\<rparr>"

text \<open>
  The same world with a text test that, like \<^verbatim>\<open>re.compile\<close>, rejects the pattern that is a
  lone opening parenthesis.
\<close>

definition strict_contains :: "string \<Rightarrow> exn + (string \<Rightarrow> bool)" where
  "strict_contains pat =
     (if pat = ''('' then Inl ''missing ), unterminated subpattern at position 0''
      else plain_contains pat)"

definition strict_world :: world where
  "strict_world = sample_world\<lparr>str_contains := strict_contains\<rparr>"

text \<open>
  A reasoning client that always returns the same text, with the registry \<^verbatim>\<open>TOOLS\<close> and the
  model of \<^verbatim>\<open>json.loads\<close>.
\<close>

definition tool_env :: "string \<Rightarrow> world agent_env" where
  "tool_env raw =
     \<lparr>llm_call = (\<lambda>p w. (Inr raw, w)), json_loads = py_json_loads,
      float_repr = two_decimals, registry = TOOLS\<rparr>"

section \<open>Properties of the agent loop\<close>

subsection \<open>One pass through the loop body\<close>

lemma call_tool_frame:
  "history (snd (call_tool env raw st)) = history st \<and>
   llm_calls (snd (call_tool env raw st)) = llm_calls st"
  by (auto simp: call_tool_def Let_def split: sum.splits json.splits prod.splits option.splits)

lemma agent_step_llm_raises:
  assumes "llm_call env (compose_prompt d q (history st)) (world st) = (Inl e, w)"
  shows "agent_step env d q st =
           (st\<lparr>world := w, llm_calls := Suc (llm_calls st)\<rparr>,
            Some (ErrorOutcome (''Error communicating with LLM: '' @ e)))"
  using assms by (simp add: agent_step_def)

lemma agent_step_final:
  assumes "llm_call env (compose_prompt d q (history st)) (world st) = (Inr raw, w)"
    and "is_final_answer raw"
  shows "agent_step env d q st =
           (st\<lparr>world := w, llm_calls := Suc (llm_calls st)\<rparr>,
            Some (FinalAnswer (final_answer_of raw)))"
  using assms by (simp add: agent_step_def)

lemma agent_step_tool:
  assumes "llm_call env (compose_prompt d q (history st)) (world st) = (Inr raw, w)"
    and "\<not> is_final_answer raw"
    and "call_tool env raw
           (st\<lparr>world := w, llm_calls := Suc (llm_calls st),
               history := history st @ [\<lparr>role = ''assistant (tool call)'', content = raw\<rparr>]\<rparr>)
         = (r2, st2)"
  shows "agent_step env d q st =
           (st2\<lparr>history := history st2 @
               [\<lparr>role = ''tool_output'',
                 content = (case r2 of Inl e \<Rightarrow> error_str e | Inr out \<Rightarrow> out)\<rparr>]\<rparr>, None)"
  using assms by (simp add: agent_step_def)

lemma agent_step_not_final:
  assumes "llm_call env (compose_prompt d q (history st)) (world st) = (Inr raw, w)"
    and "\<not> is_final_answer raw"
  shows "\<exists>st' c. agent_step env d q st = (st', None) \<and>
           llm_calls st' = Suc (llm_calls st) \<and>
           history st' = history st @ [\<lparr>role = ''assistant (tool call)'', content = raw\<rparr>,
                                       \<lparr>role = ''tool_output'', content = c\<rparr>]"
proof -
  let ?st1 = "st\<lparr>world := w, llm_calls := Suc (llm_calls st),
               history := history st @ [\<lparr>role = ''assistant (tool call)'', content = raw\<rparr>]\<rparr>"
  obtain r2 st2 where c: "call_tool env raw ?st1 = (r2, st2)"
    by (cases "call_tool env raw ?st1")
  have f: "history st2 = history ?st1" "llm_calls st2 = llm_calls ?st1"
    using call_tool_frame [of env raw ?st1] c by simp_all
  show ?thesis
    using agent_step_tool [OF assms c] f by simp
qed

subsection \<open>The step budget\<close>

text \<open>
  With a step ceiling of \<open>n\<close> and a reasoning client that always returns a text that is
  not a final answer, the loop makes exactly \<open>n\<close> passes, each adding two history
  entries, and ends with the error for the exceeded budget.
\<close>

lemma agent_loop_never_final:
  assumes "\<forall>p w. \<exists>raw w'. llm_call env p w = (Inr raw, w') \<and> \<not> is_final_answer raw"
  shows "snd (agent_loop env d q n st) = ErrorOutcome MAX_STEPS_REACHED \<and>
         llm_calls (fst (agent_loop env d q n st)) = llm_calls st + n \<and>
         length (history (fst (agent_loop env d q n st))) = length (history st) + 2 * n"
proof (induction n arbitrary: st)
  case 0
  show ?case by simp
next
  case (Suc n)
  obtain raw w where l: "llm_call env (compose_prompt d q (history st)) (world st) = (Inr raw, w)"
    and nf: "\<not> is_final_answer raw"
    using assms by blast
  obtain st' c where s: "agent_step env d q st = (st', None)"
    and n': "llm_calls st' = Suc (llm_calls st)"
    and h': "history st' = history st @ [\<lparr>role = ''assistant (tool call)'', content = raw\<rparr>,
                                       \<lparr>role = ''tool_output'', content = c\<rparr>]"
    using agent_step_not_final [OF l nf] by blast
  show ?case
    using Suc.IH [of st'] s n' h' by simp
qed

text \<open>Whatever the reasoning client does, the loop calls it at most \<open>n\<close> times.\<close>

lemma agent_step_llm_calls:
  "llm_calls (fst (agent_step env d q st)) = Suc (llm_calls st)"
proof (cases "llm_call env (compose_prompt d q (history st)) (world st)")
  case (Pair r w)
  show ?thesis
  proof (cases r)
    case (Inl e)
    with Pair show ?thesis by (simp add: agent_step_llm_raises)
  next
    case (Inr raw)
    show ?thesis
    proof (cases "is_final_answer raw")
      case True
      with Pair Inr show ?thesis by (simp add: agent_step_final)
    next
      case False
      with Pair Inr agent_step_not_final [of env d q st raw w] show ?thesis by auto
    qed
  qed
qed

lemma agent_loop_bounded:
  "llm_calls (fst (agent_loop env d q n st)) \<le> llm_calls st + n"
proof (induction n arbitrary: st)
  case 0
  show ?case by simp
next
  case (Suc n)
  obtain st' r where s: "agent_step env d q st = (st', r)"
    by (cases "agent_step env d q st")
  have c: "llm_calls st' = Suc (llm_calls st)"
    using agent_step_llm_calls [of env d q st] s by simp
  show ?case
  proof (cases r)
    case None
    with s c Suc.IH [of st'] show ?thesis by simp
  next
    case (Some out)
    with s c show ?thesis by simp
  qed
qed

text \<open>
  C1. If every call of the reasoning client returns a text, and none of these texts is
  classified as a final answer, then \<^verbatim>\<open>run_agent\<close> returns the error for the exceeded step
  budget after exactly 8 passes through the loop (8 calls of the reasoning client, 16 history
  entries). \<open>run_agent\<close> is a total function: the loop cannot run without bound.
\<close>

theorem run_agent_step_budget:
  assumes "\<forall>p w. \<exists>raw w'. llm_call env p w = (Inr raw, w') \<and> \<not> is_final_answer raw"
  shows "snd (run_agent env user_query w) = ErrorOutcome MAX_STEPS_REACHED \<and>
         llm_calls (fst (run_agent env user_query w)) = 8 \<and>
         length (history (fst (run_agent env user_query w))) = 16"
  using agent_loop_never_final [OF assms,
      of "get_tool_definitions (float_repr env) (registry env)" user_query MAX_STEPS
         "initial_state w"]
  by (simp add: run_agent_def MAX_STEPS_def initial_state_def)

theorem run_agent_step_budget_witness:
  "snd (run_agent (echo_env ''I am still thinking.'') ''How much rain fell in Kerala in 2012?'' ())
     = ErrorOutcome MAX_STEPS_REACHED \<and>
   llm_calls (fst (run_agent (echo_env ''I am still thinking.'')
     ''How much rain fell in Kerala in 2012?'' ())) = 8 \<and>
   length (history (fst (run_agent (echo_env ''I am still thinking.'')
     ''How much rain fell in Kerala in 2012?'' ()))) = 16"
proof -
  have "\<forall>p w. \<exists>raw w'. llm_call (echo_env ''I am still thinking.'') p w = (Inr raw, w') \<and>
          \<not> is_final_answer raw"
    by (simp add: echo_env_def is_final_answer_def py_startswith_def py_strip_def py_isspace_def)
  then show ?thesis by (rule run_agent_step_budget)
qed

subsection \<open>A failing reasoning client\<close>

text \<open>
  C6. When the call of the reasoning client raises at some step, that pass returns the
  error outcome at once, and so does the loop whatever budget is left: the client was
  called once more and not again, and the history and the list of handler calls are
  as they were before the step.
\<close>

theorem llm_failure_aborts:
  assumes "llm_call env (compose_prompt d q (history st)) (world st) = (Inl e, w)"
  shows "agent_loop env d q (Suc n) st =
           (st\<lparr>world := w, llm_calls := Suc (llm_calls st)\<rparr>,
            ErrorOutcome (''Error communicating with LLM: '' @ e)) \<and>
         history (fst (agent_loop env d q (Suc n) st)) = history st \<and>
         invoked (fst (agent_loop env d q (Suc n) st)) = invoked st \<and>
         llm_calls (fst (agent_loop env d q (Suc n) st)) = Suc (llm_calls st)"
  using agent_step_llm_raises [OF assms] by simp

theorem llm_failure_aborts_witness:
  "agent_loop failing_env ''tools'' ''rain in Kerala?'' (Suc 7) (initial_state ()) =
     ((initial_state ())\<lparr>world := (), llm_calls := Suc (llm_calls (initial_state ()))\<rparr>,
      ErrorOutcome (''Error communicating with LLM: '' @
        ''LLM call failed (langchain_openai.invoke): timeout'')) \<and>
   history (fst (agent_loop failing_env ''tools'' ''rain in Kerala?'' (Suc 7) (initial_state ())))
     = history (initial_state ()) \<and>
   invoked (fst (agent_loop failing_env ''tools'' ''rain in Kerala?'' (Suc 7) (initial_state ())))
     = invoked (initial_state ()) \<and>
   llm_calls (fst (agent_loop failing_env ''tools'' ''rain in Kerala?'' (Suc 7) (initial_state ())))
     = Suc (llm_calls (initial_state ()))"
proof -
  have "llm_call failing_env
          (compose_prompt ''tools'' ''rain in Kerala?'' (history (initial_state ())))
          (world (initial_state ()))
        = (Inl ''LLM call failed (langchain_openai.invoke): timeout'', ())"
    by (simp add: failing_env_def)
  then show ?thesis by (rule llm_failure_aborts)
qed

subsection \<open>Final answers\<close>

text \<open>
  C2. The text of a final answer is computed with \<^verbatim>\<open>replace\<close>, which removes every
  occurrence of the marker, not only the leading one: for the response below the answer
  returned has lost the marker that the text quotes.
\<close>

theorem final_answer_loses_quoted_marker:
  "snd (run_agent (echo_env ''Final Answer: Begin every reply with Final Answer: as told.'')
         ''What is the format?'' ())
   = FinalAnswer ''Begin every reply with  as told.''"
  by (simp add: run_agent_def MAX_STEPS_def initial_state_def agent_step_def echo_env_def
      is_final_answer_def final_answer_of_def py_startswith_def py_strip_def py_isspace_def
      py_replace_def eval_nat_numeral)

section \<open>Properties of the response parser\<close>

subsection \<open>The slice between the first and the last brace\<close>

lemma takeWhile_until:
  "c \<notin> set ys \<Longrightarrow> takeWhile (\<lambda>x. x \<noteq> c) (ys @ c # zs) = ys"
  by (induction ys) auto

lemma py_find_first:
  assumes "c \<notin> set pre"
  shows "py_find (pre @ c # rest) c = int (length pre)"
  using takeWhile_until [OF assms, of rest] by (simp add: py_find_def)

lemma py_rfind_last:
  assumes "c \<notin> set suf"
  shows "py_rfind (xs @ c # suf) c = int (length xs)"
proof -
  have "c \<notin> set (rev suf)"
    using assms by simp
  then have "takeWhile (\<lambda>x. x \<noteq> c) (rev suf @ c # rev xs) = rev suf"
    by (rule takeWhile_until)
  then show ?thesis by (simp add: py_rfind_def)
qed

lemma py_slice_middle:
  "py_slice (pre @ body @ suf) (int (length pre)) (int (length pre + length body)) = body"
  by (simp add: py_slice_def)

lemma safe_json_parse_embedded:
  assumes "CHR ''{'' \<notin> set pre" and "CHR ''}'' \<notin> set suf"
    and "loads (CHR ''{'' # mid @ [CHR ''}'']) = Some v"
  shows "safe_json_parse loads (pre @ (CHR ''{'' # mid @ [CHR ''}'']) @ suf) = Inr v"
proof -
  let ?body = "CHR ''{'' # mid @ [CHR ''}'']"
  let ?s = "pre @ ?body @ suf"
  have s: "py_find ?s CHR ''{'' = int (length pre)"
    using py_find_first [OF assms(1), of "mid @ CHR ''}'' # suf"] by simp
  have e: "py_rfind ?s CHR ''}'' = int (length pre + length mid + 1)"
    using py_rfind_last [OF assms(2), of "pre @ CHR ''{'' # mid"] by simp
  have "py_slice ?s (int (length pre)) (int (length pre + length ?body)) = ?body"
    by (rule py_slice_middle)
  then have sl: "py_slice ?s (int (length pre)) (int (length pre + length mid + 1) + 1) = ?body"
    by (simp add: add.commute add.left_commute)
  show ?thesis
    unfolding safe_json_parse_def s e Let_def sl using assms(3) by simp
qed

lemma json_dumps_object:
  "json_dumps fr ea (JObj kvs) =
     CHR ''{'' # py_join '', ''
        (map (\<lambda>kv. json_dumps_str ea (fst kv) @ '': '' @ json_dumps fr ea (snd kv)) kvs) @ [CHR ''}'']"
  by simp

text \<open>
  C3, as the program has it. A tool call \<open>O\<close> printed by \<^verbatim>\<open>json.dumps\<close> and placed in a text
  is recovered by \<^verbatim>\<open>safe_json_parse\<close>, with its \<^verbatim>\<open>tool\<close> and \<^verbatim>\<open>args\<close> members, when the text
  before it has no opening brace and the text after it has no closing brace (and
  \<^verbatim>\<open>json.loads\<close> reads \<open>O\<close> back from what \<^verbatim>\<open>json.dumps\<close> printed). The parser cuts the text from
  its first \<^verbatim>\<open>{\<close> to its last \<^verbatim>\<open>}\<close>, so a brace in the surrounding text changes what is parsed.
\<close>

theorem tool_call_round_trip:
  assumes "CHR ''{'' \<notin> set pre" and "CHR ''}'' \<notin> set suf"
    and "loads (json_dumps fr ea (JObj [(''tool'', JStr t), (''args'', JObj a)]))
         = Some (JObj [(''tool'', JStr t), (''args'', JObj a)])"
  shows "safe_json_parse loads
           (pre @ json_dumps fr ea (JObj [(''tool'', JStr t), (''args'', JObj a)]) @ suf)
         = Inr (JObj [(''tool'', JStr t), (''args'', JObj a)]) \<and>
         dict_get [(''tool'', JStr t), (''args'', JObj a)] ''tool'' = Some (JStr t) \<and>
         dict_get [(''tool'', JStr t), (''args'', JObj a)] ''args'' = Some (JObj a)"
proof -
  have "safe_json_parse loads
           (pre @ json_dumps fr ea (JObj [(''tool'', JStr t), (''args'', JObj a)]) @ suf)
         = Inr (JObj [(''tool'', JStr t), (''args'', JObj a)])"
    using assms(3) unfolding json_dumps_object
    by (rule safe_json_parse_embedded [OF assms(1,2)])
  then show ?thesis by (simp add: dict_get_def)
qed

lemma dumps_kerala:
  \<open>json_dumps two_decimals True
     (JObj [(''tool'', JStr ''get_live_rainfall_data''),
            (''args'', JObj [(''state'', JStr ''Kerala''), (''year'', JInt 2012)])])
   = ''{"tool": "get_live_rainfall_data", "args": {"state": "Kerala", "year": 2012}}''\<close>
  by (simp add: json_dumps_str_def json_escape_char_def bslash_def py_str_int_def digit_char_def)

lemma loads_kerala:
  \<open>py_json_loads ''{"tool": "get_live_rainfall_data", "args": {"state": "Kerala", "year": 2012}}''
   = Some (JObj [(''tool'', JStr ''get_live_rainfall_data''),
            (''args'', JObj [(''state'', JStr ''Kerala''), (''year'', JInt 2012)])])\<close>
  by (simp add: py_json_loads_def idle_step_def is_json_space_def is_digit_def is_letter_def
      is_number_char_def bslash_def number_value_def word_value_def)

theorem tool_call_round_trip_witness:
  \<open>safe_json_parse py_json_loads
     (''I will look this up. '' @
      json_dumps two_decimals True
        (JObj [(''tool'', JStr ''get_live_rainfall_data''),
               (''args'', JObj [(''state'', JStr ''Kerala''), (''year'', JInt 2012)])]) @
      '' Waiting for the result.'')
   = Inr (JObj [(''tool'', JStr ''get_live_rainfall_data''),
                (''args'', JObj [(''state'', JStr ''Kerala''), (''year'', JInt 2012)])]) \<and>
   dict_get [(''tool'', JStr ''get_live_rainfall_data''),
             (''args'', JObj [(''state'', JStr ''Kerala''), (''year'', JInt 2012)])] ''tool''
   = Some (JStr ''get_live_rainfall_data'') \<and>
   dict_get [(''tool'', JStr ''get_live_rainfall_data''),
             (''args'', JObj [(''state'', JStr ''Kerala''), (''year'', JInt 2012)])] ''args''
   = Some (JObj [(''state'', JStr ''Kerala''), (''year'', JInt 2012)])\<close>
proof -
  have a: "CHR ''{'' \<notin> set ''I will look this up. ''" by simp
  have b: "CHR ''}'' \<notin> set '' Waiting for the result.''" by simp
  have c: "py_json_loads (json_dumps two_decimals True
        (JObj [(''tool'', JStr ''get_live_rainfall_data''),
               (''args'', JObj [(''state'', JStr ''Kerala''), (''year'', JInt 2012)])]))
     = Some (JObj [(''tool'', JStr ''get_live_rainfall_data''),
               (''args'', JObj [(''state'', JStr ''Kerala''), (''year'', JInt 2012)])])"
    unfolding dumps_kerala by (rule loads_kerala)
  show ?thesis
    using tool_call_round_trip
      [where pre = "''I will look this up. ''" and suf = "'' Waiting for the result.''"
         and loads = py_json_loads and fr = two_decimals and ea = True
         and t = "''get_live_rainfall_data''"
         and a = "[(''state'', JStr ''Kerala''), (''year'', JInt 2012)]", OF a b c] .
qed

text \<open>
  The claim C3 as stated fails: with braces in the text before the tool call, the slice
  is not the tool call and the parse fails, although the tool call alone parses.
\<close>

theorem brace_in_prose_breaks_round_trip:
  \<open>json_dumps two_decimals True (JObj [(''tool'', JStr ''get_rainfall_trend''), (''args'', JObj [])])
   = ''{"tool": "get_rainfall_trend", "args": {}}'' \<and>
   safe_json_parse py_json_loads ''{"tool": "get_rainfall_trend", "args": {}}''
   = Inr (JObj [(''tool'', JStr ''get_rainfall_trend''), (''args'', JObj [])]) \<and>
   safe_json_parse py_json_loads
     ''Use {braces} like this: {"tool": "get_rainfall_trend", "args": {}}''
   = Inl (parse_failed ''Use {braces} like this: {"tool": "get_rainfall_trend", "args": {}}'')\<close>
  by (simp add: json_dumps_str_def json_escape_char_def bslash_def safe_json_parse_def
      py_find_def py_rfind_def py_slice_def py_replace_def py_startswith_def
      py_json_loads_def idle_step_def is_json_space_def is_digit_def is_letter_def
      is_number_char_def number_value_def word_value_def)

subsection \<open>Texts that are not a usable tool call\<close>

lemma call_tool_parse_error:
  assumes "safe_json_parse (json_loads env) raw = Inl e"
  shows "call_tool env raw st = (Inl e, st)"
  using assms by (simp add: call_tool_def)

lemma find_tool_unknown:
  assumes "\<forall>s. tool_name = Some (JStr s) \<longrightarrow> s \<notin> fst ` set reg"
  shows "find_tool fr reg tool_name = Inl (unknown_tool fr tool_name)"
proof (cases tool_name)
  case None
  then show ?thesis by (simp add: find_tool_def)
next
  case (Some v)
  show ?thesis
  proof (cases v)
    case (JStr s)
    with Some assms have "s \<notin> fst ` set reg" by simp
    then have "map_of reg s = None" by (simp add: map_of_eq_None_iff)
    with Some JStr show ?thesis by (simp add: find_tool_def)
  qed (use Some in \<open>simp_all add: find_tool_def\<close>)
qed

lemma call_tool_unknown_tool:
  assumes "safe_json_parse (json_loads env) raw = Inr (JObj choice)"
    and "\<forall>s. dict_get choice ''tool'' = Some (JStr s) \<longrightarrow> s \<notin> fst ` set (registry env)"
  shows "call_tool env raw st = (Inl (unknown_tool (float_repr env) (dict_get choice ''tool'')), st)"
  using assms(1) find_tool_unknown [OF assms(2), of "float_repr env"]
  by (simp add: call_tool_def)

text \<open>
  C5. At a step whose text is not a final answer and either fails to parse or parses to
  an object whose \<^verbatim>\<open>tool\<close> member is not the name of a registered tool, no handler is called
  and the world is as the reasoning client left it; the history gains the raw text and a
  \<^verbatim>\<open>tool_output\<close> entry with the diagnostic; the step returns nothing, and the loop goes
  on with one step less in its budget.
\<close>

theorem bad_decision_is_recoverable:
  assumes "llm_call env (compose_prompt d q (history st)) (world st) = (Inr raw, w)"
    and "\<not> is_final_answer raw"
    and "safe_json_parse (json_loads env) raw = Inl e \<or>
         (\<exists>choice. safe_json_parse (json_loads env) raw = Inr (JObj choice) \<and>
            (\<forall>s. dict_get choice ''tool'' = Some (JStr s) \<longrightarrow> s \<notin> fst ` set (registry env)) \<and>
            e = unknown_tool (float_repr env) (dict_get choice ''tool''))"
  shows "\<exists>st'. agent_step env d q st = (st', None) \<and>
           agent_loop env d q (Suc n) st = agent_loop env d q n st' \<and>
           invoked st' = invoked st \<and>
           world st' = w \<and>
           llm_calls st' = Suc (llm_calls st) \<and>
           history st' = history st @
             [\<lparr>role = ''assistant (tool call)'', content = raw\<rparr>,
              \<lparr>role = ''tool_output'', content = error_str e\<rparr>]"
proof -
  let ?st1 = "st\<lparr>world := w, llm_calls := Suc (llm_calls st),
               history := history st @ [\<lparr>role = ''assistant (tool call)'', content = raw\<rparr>]\<rparr>"
  have c: "call_tool env raw ?st1 = (Inl e, ?st1)"
    using assms(3) call_tool_parse_error [of env raw e ?st1]
      call_tool_unknown_tool [of env raw _ ?st1]
    by auto
  show ?thesis
    using agent_step_tool [OF assms(1,2) c] by simp
qed

theorem bad_decision_is_recoverable_witness:
  \<open>\<exists>st'. agent_step (tool_env ''{"tool": "get_weather", "args": {"state": "Kerala"}}'')
             ''tools'' ''Will it rain in Kerala?'' (initial_state sample_world) = (st', None) \<and>
          agent_loop (tool_env ''{"tool": "get_weather", "args": {"state": "Kerala"}}'')
             ''tools'' ''Will it rain in Kerala?'' (Suc 7) (initial_state sample_world)
          = agent_loop (tool_env ''{"tool": "get_weather", "args": {"state": "Kerala"}}'')
             ''tools'' ''Will it rain in Kerala?'' 7 st' \<and>
          invoked st' = invoked (initial_state sample_world) \<and>
          world st' = sample_world \<and>
          llm_calls st' = Suc (llm_calls (initial_state sample_world)) \<and>
          history st' = history (initial_state sample_world) @
            [\<lparr>role = ''assistant (tool call)'',
              content = ''{"tool": "get_weather", "args": {"state": "Kerala"}}''\<rparr>,
             \<lparr>role = ''tool_output'',
              content = error_str ''LLM chose unknown tool: get_weather''\<rparr>]\<close>
proof -
  let ?raw = \<open>''{"tool": "get_weather", "args": {"state": "Kerala"}}''\<close>
  have l: "llm_call (tool_env ?raw)
             (compose_prompt ''tools'' ''Will it rain in Kerala?'' (history (initial_state sample_world)))
             (world (initial_state sample_world)) = (Inr ?raw, sample_world)"
    by (simp add: tool_env_def initial_state_def)
  have nf: "\<not> is_final_answer ?raw"
    by (simp add: is_final_answer_def py_startswith_def py_strip_def py_isspace_def)
  have p: "safe_json_parse (json_loads (tool_env ?raw)) ?raw
           = Inr (JObj [(''tool'', JStr ''get_weather''), (''args'', JObj [(''state'', JStr ''Kerala'')])])"
    by (simp add: tool_env_def safe_json_parse_def
      py_find_def py_rfind_def py_slice_def bslash_def
      py_json_loads_def idle_step_def is_json_space_def is_digit_def is_letter_def
      is_number_char_def number_value_def word_value_def)
  have u: "\<forall>s. dict_get [(''tool'', JStr ''get_weather''), (''args'', JObj [(''state'', JStr ''Kerala'')])] ''tool'' = Some (JStr s)
             \<longrightarrow> s \<notin> fst ` set (registry (tool_env ?raw))"
    by (simp add: dict_get_def tool_env_def TOOLS_def)
  have e: "''LLM chose unknown tool: get_weather''
           = unknown_tool (float_repr (tool_env ?raw))
               (dict_get [(''tool'', JStr ''get_weather''), (''args'', JObj [(''state'', JStr ''Kerala'')])] ''tool'')"
    by (simp add: dict_get_def)
  have b: "safe_json_parse (json_loads (tool_env ?raw)) ?raw = Inl ''LLM chose unknown tool: get_weather'' \<or>
         (\<exists>choice. safe_json_parse (json_loads (tool_env ?raw)) ?raw = Inr (JObj choice) \<and>
            (\<forall>s. dict_get choice ''tool'' = Some (JStr s) \<longrightarrow> s \<notin> fst ` set (registry (tool_env ?raw))) \<and>
            ''LLM chose unknown tool: get_weather'' = unknown_tool (float_repr (tool_env ?raw)) (dict_get choice ''tool''))"
    using p u e by blast
  show ?thesis
    by (rule bad_decision_is_recoverable [OF l nf b])
qed

text \<open>
  C4, as the program has it. The entry \<^verbatim>\<open>assistant (tool call)\<close> with the raw text is
  appended before the text is parsed: a step adds it exactly when the reasoning client
  returned a text that is not a final answer, whether or not that text parses or names a
  registered tool, and a \<^verbatim>\<open>tool_output\<close> entry always follows it. A step that ends the
  loop adds nothing.
\<close>

theorem tool_call_entry_for_every_other_text:
  assumes "llm_call env (compose_prompt d q (history st)) (world st) = (r, w)"
  shows "(case r of
            Inl e \<Rightarrow> history (fst (agent_step env d q st)) = history st
          | Inr raw \<Rightarrow>
              if is_final_answer raw
              then history (fst (agent_step env d q st)) = history st
              else (\<exists>c. history (fst (agent_step env d q st)) = history st @
                      [\<lparr>role = ''assistant (tool call)'', content = raw\<rparr>,
                       \<lparr>role = ''tool_output'', content = c\<rparr>]))"
proof (cases r)
  case (Inl e)
  then show ?thesis using agent_step_llm_raises [of env d q st e w] assms by simp
next
  case (Inr raw)
  show ?thesis
  proof (cases "is_final_answer raw")
    case True
    then show ?thesis using agent_step_final [of env d q st raw w] assms Inr by simp
  next
    case False
    then show ?thesis using agent_step_not_final [of env d q st raw w] assms Inr by auto
  qed
qed

theorem tool_call_entry_for_every_other_text_witness:
  \<open>\<exists>c. history (fst (agent_step (tool_env ''{"tool": "get_weather"'') ''tools''
              ''Will it rain in Kerala?'' (initial_state sample_world)))
        = history (initial_state sample_world) @
            [\<lparr>role = ''assistant (tool call)'', content = ''{"tool": "get_weather"''\<rparr>,
             \<lparr>role = ''tool_output'', content = c\<rparr>]\<close>
proof -
  let ?raw = \<open>''{"tool": "get_weather"''\<close>
  have l: "llm_call (tool_env ?raw)
             (compose_prompt ''tools'' ''Will it rain in Kerala?''
                (history (initial_state sample_world)))
             (world (initial_state sample_world)) = (Inr ?raw, sample_world)"
    by (simp add: tool_env_def initial_state_def)
  have nf: "\<not> is_final_answer ?raw"
    by (simp add: is_final_answer_def py_startswith_def py_strip_def py_isspace_def)
  show ?thesis
    using tool_call_entry_for_every_other_text [OF l] nf by simp
qed

text \<open>
  The claim C4 as stated fails: a text that does not parse still gets its
  \<^verbatim>\<open>assistant (tool call)\<close> entry, before the diagnostic.
\<close>

theorem unparsed_text_gets_tool_call_entry:
  \<open>safe_json_parse py_json_loads ''I should look up the rainfall first.''
     = Inl (parse_failed ''I should look up the rainfall first.'') \<and>
   map role (history (fst (agent_step (tool_env ''I should look up the rainfall first.'')
       (get_tool_definitions two_decimals TOOLS) ''Will it rain in Kerala?''
       (initial_state sample_world))))
     = [''assistant (tool call)'', ''tool_output'']\<close>
  by (simp add: agent_step_def call_tool_def tool_env_def initial_state_def safe_json_parse_def
      py_find_def py_rfind_def is_final_answer_def py_startswith_def py_strip_def py_isspace_def)

section \<open>The handlers at the declared types\<close>

text \<open>
  On a text and integers, the handlers on any values are the handlers of the section on
  the data tools.
\<close>

lemma get_live_rainfall_data_any_typed:
  "get_live_rainfall_data_any (JStr state) (JInt year) w =
     (Inr (fst (get_live_rainfall_data state year w)), snd (get_live_rainfall_data state year w))"
  by (cases "1901 \<le> year"; cases "year \<le> 2017")
    (simp_all add: get_live_rainfall_data_any_def get_live_rainfall_data_def rain_lookup_of_def
      split: rain_lookup.split)

lemma state_year_crop_mask_any_typed:
  "state_year_crop_mask_any w df (JStr state) (Inr year) (JStr crop_name) =
     state_year_crop_mask w df state year crop_name"
  by (simp add: state_year_crop_mask_any_def state_year_crop_mask_def state_year_mask_any_def
      state_year_mask_def crop_mask_any_def crop_mask_def contains_pattern_def
      split: sum.split)

lemma production_trend_loop_any_typed:
  "production_trend_loop_any w df (JStr state) (JStr crop_name) years =
     production_trend_loop w df state crop_name years"
  by (induction years)
    (simp_all add: year_production_any_def year_production_def state_year_crop_mask_any_typed
      split: sum.split)

lemma get_production_trend_any_typed:
  "get_production_trend_any (JStr state) (JStr crop_name) (JInt start_year) (JInt end_year) w =
     get_production_trend state crop_name start_year end_year w"
  by (simp add: get_production_trend_any_def get_production_trend_def
      production_trend_body_any_def production_trend_body_def production_trend_loop_any_typed
      split: sum.split)

section \<open>Properties of the data tools\<close>

subsection \<open>A year outside the rainfall data\<close>

lemma get_live_rainfall_data_out_of_range:
  assumes "year < 1901 \<or> 2017 < year"
  shows "get_live_rainfall_data state year w =
           ([(''error'', JStr (''Invalid year '' @ py_str_int year @
                ''. Data is only available from 1901 to 2017.'')),
             (''source'', JStr RAINFALL_SOURCE_NAME)], w)"
  using assms by (auto simp: get_live_rainfall_data_def)

lemma call_get_live_rainfall_data_typed:
  "call_get_live_rainfall_data [(''state'', JStr state), (''year'', JInt year)] w =
     returned (get_live_rainfall_data state year w)"
  by (simp add: call_get_live_rainfall_data_def check_keywords_def dict_has_def bound_arg_def
      dict_get_def returned_or_raised_def returned_def get_live_rainfall_data_any_typed)

lemma find_tool_get_live_rainfall_data:
  "find_tool fr TOOLS (Some (JStr ''get_live_rainfall_data'')) =
     Inr (''get_live_rainfall_data'', snd (hd TOOLS))"
  by (simp add: find_tool_def TOOLS_def)

lemma func_get_live_rainfall_data:
  "func (snd (hd TOOLS)) = call_get_live_rainfall_data"
  by (simp add: TOOLS_def)

text \<open>
  C7. For every state and every year outside 1901 to 2017, \<^verbatim>\<open>get_live_rainfall_data\<close>
  returns the mapping with the \<^verbatim>\<open>error\<close> text about the range and the rainfall source, and
  leaves the world as it was: no request is made. When the reasoning client asks for such
  a call, the step appends the printed mapping as a \<^verbatim>\<open>tool_output\<close> entry and returns
  nothing, so the loop goes on.
\<close>

theorem out_of_range_year_is_folded:
  assumes "year < 1901 \<or> 2017 < year"
    and "llm_call env (compose_prompt d q (history st)) (world st) = (Inr raw, w)"
    and "\<not> is_final_answer raw"
    and "registry env = TOOLS"
    and "safe_json_parse (json_loads env) raw =
           Inr (JObj [(''tool'', JStr ''get_live_rainfall_data''),
                      (''args'', JObj [(''state'', JStr state), (''year'', JInt year)])])"
  shows "get_live_rainfall_data state year w0 =
           ([(''error'', JStr (''Invalid year '' @ py_str_int year @
                ''. Data is only available from 1901 to 2017.'')),
             (''source'', JStr RAINFALL_SOURCE_NAME)], w0) \<and>
         (\<exists>st'. agent_step env d q st = (st', None) \<and>
            agent_loop env d q (Suc n) st = agent_loop env d q n st' \<and>
            world st' = w \<and>
            history st' = history st @
              [\<lparr>role = ''assistant (tool call)'', content = raw\<rparr>,
               \<lparr>role = ''tool_output'',
                content = json_dumps (float_repr env) False
                  (JObj [(''error'', JStr (''Invalid year '' @ py_str_int year @
                            ''. Data is only available from 1901 to 2017.'')),
                         (''source'', JStr RAINFALL_SOURCE_NAME)])\<rparr>])"
proof -
  let ?st1 = "st\<lparr>world := w, llm_calls := Suc (llm_calls st),
               history := history st @ [\<lparr>role = ''assistant (tool call)'', content = raw\<rparr>]\<rparr>"
  let ?res = "[(''error'', JStr (''Invalid year '' @ py_str_int year @
                ''. Data is only available from 1901 to 2017.'')),
             (''source'', JStr RAINFALL_SOURCE_NAME)]"
  have r: "get_live_rainfall_data state year v = (?res, v)" for v
    using assms(1) by (rule get_live_rainfall_data_out_of_range)
  have c: "call_tool env raw ?st1 =
             (Inr (json_dumps (float_repr env) False (JObj ?res)),
              ?st1\<lparr>world := w, invoked := invoked ?st1 @
                 [(''get_live_rainfall_data'', [(''state'', JStr state), (''year'', JInt year)])]\<rparr>)"
    unfolding call_tool_def assms(4,5)
    by (simp add: dict_get_def find_tool_get_live_rainfall_data func_get_live_rainfall_data
        call_get_live_rainfall_data_typed returned_def r del: json_dumps.simps)
  show ?thesis
    using agent_step_tool [OF assms(2,3) c] r [of w0] by simp
qed

theorem out_of_range_year_is_folded_witness:
  \<open>get_live_rainfall_data ''Kerala'' 1850 sample_world =
     ([(''error'', JStr (''Invalid year '' @ py_str_int 1850 @
          ''. Data is only available from 1901 to 2017.'')),
       (''source'', JStr RAINFALL_SOURCE_NAME)], sample_world) \<and>
   (\<exists>st'. agent_step
            (tool_env ''{"tool": "get_live_rainfall_data", "args": {"state": "Kerala", "year": 1850}}'')
            ''tools'' ''How much rain fell in Kerala in 1850?'' (initial_state sample_world)
          = (st', None) \<and>
      agent_loop
            (tool_env ''{"tool": "get_live_rainfall_data", "args": {"state": "Kerala", "year": 1850}}'')
            ''tools'' ''How much rain fell in Kerala in 1850?'' (Suc 7) (initial_state sample_world)
          = agent_loop
            (tool_env ''{"tool": "get_live_rainfall_data", "args": {"state": "Kerala", "year": 1850}}'')
            ''tools'' ''How much rain fell in Kerala in 1850?'' 7 st' \<and>
      world st' = sample_world \<and>
      history st' = history (initial_state sample_world) @
        [\<lparr>role = ''assistant (tool call)'',
          content = ''{"tool": "get_live_rainfall_data", "args": {"state": "Kerala", "year": 1850}}''\<rparr>,
         \<lparr>role = ''tool_output'',
          content = json_dumps
            (float_repr (tool_env ''{"tool": "get_live_rainfall_data", "args": {"state": "Kerala", "year": 1850}}''))
            False
            (JObj [(''error'', JStr (''Invalid year '' @ py_str_int 1850 @
                      ''. Data is only available from 1901 to 2017.'')),
                   (''source'', JStr RAINFALL_SOURCE_NAME)])\<rparr>])\<close>
proof -
  let ?raw = \<open>''{"tool": "get_live_rainfall_data", "args": {"state": "Kerala", "year": 1850}}''\<close>
  have y: "(1850::int) < 1901 \<or> 2017 < (1850::int)" by simp
  have l: "llm_call (tool_env ?raw)
             (compose_prompt ''tools'' ''How much rain fell in Kerala in 1850?''
                (history (initial_state sample_world)))
             (world (initial_state sample_world)) = (Inr ?raw, sample_world)"
    by (simp add: tool_env_def initial_state_def)
  have nf: "\<not> is_final_answer ?raw"
    by (simp add: is_final_answer_def py_startswith_def py_strip_def py_isspace_def)
  have reg: "registry (tool_env ?raw) = TOOLS"
    by (simp add: tool_env_def)
  have p: "safe_json_parse (json_loads (tool_env ?raw)) ?raw
           = Inr (JObj [(''tool'', JStr ''get_live_rainfall_data''),
                        (''args'', JObj [(''state'', JStr ''Kerala''), (''year'', JInt 1850)])])"
    by (simp add: tool_env_def safe_json_parse_def
      py_find_def py_rfind_def py_slice_def bslash_def
      py_json_loads_def idle_step_def is_json_space_def is_digit_def is_letter_def
      is_number_char_def number_value_def word_value_def)
  show ?thesis
    by (rule out_of_range_year_is_folded [OF y l nf reg p])
qed

subsection \<open>The source of every result\<close>

lemma get_live_rainfall_data_any_source:
  assumes "get_live_rainfall_data_any state year w = (Inr m, w')"
  shows "\<exists>s. dict_get m ''source'' = Some (JStr s)"
  using assms
  by (auto simp: get_live_rainfall_data_any_def dict_get_def
      split: sum.splits bool.splits rain_lookup.splits)

lemma agri_guard_source:
  assumes "\<And>w' df r. body w' df = Inr r \<Longrightarrow> \<exists>s. dict_get r ''source'' = Some (JStr s)"
  shows "\<exists>s. dict_get (fst (agri_guard prefix body w)) ''source'' = Some (JStr s)"
proof (cases "get_agri_data w")
  case (Pair g w')
  show ?thesis
  proof (cases g)
    case (Inl e)
    with Pair show ?thesis by (simp add: agri_guard_def dict_get_def)
  next
    case (Inr df)
    show ?thesis
    proof (cases "body w' df")
      case (Inl e)
      with Pair Inr show ?thesis by (simp add: agri_guard_def dict_get_def)
    next
      case r: (Inr r)
      with Pair Inr assms [OF r] show ?thesis by (simp add: agri_guard_def)
    qed
  qed
qed

lemma local_agriculture_body_source:
  assumes "local_agriculture_body w df state year crop_name top_n = Inr r"
  shows "\<exists>s. dict_get r ''source'' = Some (JStr s)"
  using assms
  by (auto simp: local_agriculture_body_def Let_def dict_get_def
      split: sum.splits if_splits)

lemma district_body_source:
  assumes "district_body w df state crop_name year sort_order = Inr r"
  shows "\<exists>s. dict_get r ''source'' = Some (JStr s)"
  using assms
  by (auto simp: district_body_def Let_def dict_get_def
      split: sum.splits if_splits option.splits)

lemma production_trend_body_any_source:
  assumes "production_trend_body_any w df state crop_name start_year end_year = Inr r"
  shows "\<exists>s. dict_get r ''source'' = Some (JStr s)"
  using assms
  by (auto simp: production_trend_body_any_def dict_get_def split: sum.splits)

lemma get_local_agriculture_data_source:
  "\<exists>s. dict_get (fst (get_local_agriculture_data state year crop_name top_n w)) ''source''
        = Some (JStr s)"
  unfolding get_local_agriculture_data_def
  by (rule agri_guard_source) (rule local_agriculture_body_source)

lemma get_district_production_source:
  "\<exists>s. dict_get (fst (get_district_production state crop_name year sort_order w)) ''source''
        = Some (JStr s)"
  unfolding get_district_production_def
  by (rule agri_guard_source) (rule district_body_source)

lemma get_production_trend_any_source:
  "\<exists>s. dict_get (fst (get_production_trend_any state crop_name start_year end_year w)) ''source''
        = Some (JStr s)"
  unfolding get_production_trend_any_def
  by (rule agri_guard_source) (rule production_trend_body_any_source)

lemma get_rainfall_trend_source:
  assumes "get_rainfall_trend state start_year end_year w = (Inr m, w')"
  shows "\<exists>s. dict_get m ''source'' = Some (JStr s)"
  using assms
  by (auto simp: get_rainfall_trend_def dict_get_def split: sum.splits prod.splits)

lemma returned_source:
  assumes "\<exists>s. dict_get (fst r) ''source'' = Some (JStr s)"
    and "returned r = (Inr result, w')"
  shows "\<exists>m s. result = JObj m \<and> dict_get m ''source'' = Some (JStr s)"
  using assms by (auto simp: returned_def)

lemma returned_or_raised_Inr:
  assumes "returned_or_raised r = (Inr result, w')"
  shows "\<exists>m. r = (Inr m, w') \<and> result = JObj m"
  using assms by (cases r) (auto simp: returned_or_raised_def split: sum.splits)

lemma registry_funcs:
  assumes "(name, info) \<in> set TOOLS"
  shows "func info = call_get_live_rainfall_data \<or> func info = call_get_local_agriculture_data \<or>
         func info = call_get_district_production \<or> func info = call_get_production_trend \<or>
         func info = call_get_rainfall_trend"
  using assms by (auto simp: TOOLS_def)

lemma call_get_live_rainfall_data_source:
  assumes "call_get_live_rainfall_data kwargs w = (Inr result, w')"
  shows "\<exists>m s. result = JObj m \<and> dict_get m ''source'' = Some (JStr s)"
proof -
  from assms obtain m where
    "get_live_rainfall_data_any (bound_arg kwargs ''state'') (bound_arg kwargs ''year'') w
       = (Inr m, w')"
    and "result = JObj m"
    unfolding call_get_live_rainfall_data_def
    by (auto split: option.splits dest: returned_or_raised_Inr)
  then show ?thesis using get_live_rainfall_data_any_source by blast
qed

lemma call_get_local_agriculture_data_source:
  assumes "call_get_local_agriculture_data kwargs w = (Inr result, w')"
  shows "\<exists>m s. result = JObj m \<and> dict_get m ''source'' = Some (JStr s)"
  using assms unfolding call_get_local_agriculture_data_def
  by (auto split: option.splits dest: returned_source [OF get_local_agriculture_data_source])

lemma call_get_district_production_source:
  assumes "call_get_district_production kwargs w = (Inr result, w')"
  shows "\<exists>m s. result = JObj m \<and> dict_get m ''source'' = Some (JStr s)"
  using assms unfolding call_get_district_production_def
  by (auto split: option.splits dest: returned_source [OF get_district_production_source])

lemma call_get_production_trend_source:
  assumes "call_get_production_trend kwargs w = (Inr result, w')"
  shows "\<exists>m s. result = JObj m \<and> dict_get m ''source'' = Some (JStr s)"
  using assms unfolding call_get_production_trend_def
  by (auto split: option.splits dest: returned_source [OF get_production_trend_any_source])

lemma call_get_rainfall_trend_source:
  assumes "call_get_rainfall_trend kwargs w = (Inr result, w')"
  shows "\<exists>m s. result = JObj m \<and> dict_get m ''source'' = Some (JStr s)"
proof -
  from assms obtain m where
    "get_rainfall_trend (bound_arg kwargs ''state'') (bound_arg kwargs ''start_year'')
       (bound_arg kwargs ''end_year'') w = (Inr m, w')"
    and "result = JObj m"
    unfolding call_get_rainfall_trend_def
    by (auto split: option.splits dest: returned_or_raised_Inr)
  then show ?thesis using get_rainfall_trend_source by blast
qed

text \<open>
  When the two handlers without an enclosing \<^verbatim>\<open>try\<close> return: \<^verbatim>\<open>get_live_rainfall_data\<close>
  unless the comparison of the year raises, \<^verbatim>\<open>get_rainfall_trend\<close> unless one of its two
  \<^verbatim>\<open>int(...)\<close> raises.
\<close>

lemma get_live_rainfall_data_any_returns:
  assumes "year_in_range year = Inr b"
  shows "\<exists>m w'. get_live_rainfall_data_any state year w = (Inr m, w')"
  using assms by (cases b) (simp_all add: get_live_rainfall_data_any_def)

lemma rainfall_trend_loop_returns:
  "\<exists>trend w'. rainfall_trend_loop state years w = (Inr trend, w')"
proof (induction years arbitrary: w)
  case Nil
  show ?case by simp
next
  case (Cons year years)
  obtain m w1 where c: "get_live_rainfall_data_any state (JInt year) w = (Inr m, w1)"
    using get_live_rainfall_data_any_returns [where year = "JInt year"] by fastforce
  obtain trend w2 where l: "rainfall_trend_loop state years w1 = (Inr trend, w2)"
    using Cons.IH by blast
  show ?case by (simp add: c l)
qed

lemma get_rainfall_trend_returns:
  assumes "py_int w start_year = Inr first_year" and "py_int w end_year = Inr last_year"
  shows "\<exists>m w'. get_rainfall_trend state start_year end_year w = (Inr m, w')"
proof -
  obtain trend w' where
    "rainfall_trend_loop state [max 1901 first_year..min 2017 last_year] w = (Inr trend, w')"
    using rainfall_trend_loop_returns by blast
  with assms show ?thesis by (simp add: get_rainfall_trend_def)
qed

text \<open>
  Calls with values of other types than the signatures declare, in the example world: a
  year that is a float is compared as a number, a year that is a text cannot be compared
  and the exception leaves \<^verbatim>\<open>get_live_rainfall_data\<close>; where the handler applies \<^verbatim>\<open>int(...)\<close>, a
  text of digits is read as the number.
\<close>

lemma two_decimals_1850_5:
  "two_decimals (3701 / 2) = ''1850.5''"
  by (simp add: two_decimals_def round_half_even_def Let_def digit_char_def)

lemma decimal_int_examples:
  "decimal_int ''2010'' = Inr 2010"
  "decimal_int ''2016'' = Inr 2016"
  "decimal_int ''2020'' = Inr 2020"
  by (simp_all add: decimal_int_def is_digit_def)

lemma float_year_is_out_of_range:
  "call_get_live_rainfall_data [(''state'', JStr ''Kerala''), (''year'', JFloat (3701 / 2))]
     sample_world =
   (Inr (JObj [(''error'',
                JStr ''Invalid year 1850.5. Data is only available from 1901 to 2017.''),
               (''source'', JStr RAINFALL_SOURCE_NAME)]), sample_world)"
  by (simp add: call_get_live_rainfall_data_def check_keywords_def dict_has_def bound_arg_def
      dict_get_def returned_or_raised_def get_live_rainfall_data_any_def sample_world_def
      two_decimals_1850_5)

lemma text_year_is_not_compared:
  "call_get_live_rainfall_data [(''state'', JStr ''Kerala''), (''year'', JStr ''2010'')]
     sample_world =
   (Inl (quoted ''<='' @ '' not supported between instances of '' @ quoted ''int'' @
         '' and '' @ quoted ''str''), sample_world)"
  by (simp add: call_get_live_rainfall_data_def check_keywords_def dict_has_def bound_arg_def
      dict_get_def returned_or_raised_def get_live_rainfall_data_any_def)

lemma text_years_of_a_rainfall_trend:
  "call_get_rainfall_trend
     [(''state'', JStr ''Kerala''), (''start_year'', JStr ''2016''), (''end_year'', JStr ''2020'')]
     sample_world =
   (Inr (JObj [(''state'', JStr ''Kerala''),
               (''trend'',
                JArr [JObj [(''year'', JInt 2016), (''total_rainfall_mm'', JNull),
                            (''note'', JStr ''No rainfall records returned by API.'')],
                      JObj [(''year'', JInt 2017), (''total_rainfall_mm'', JNull),
                            (''note'', JStr ''No rainfall records returned by API.'')]]),
               (''note'', JStr ''Rainfall data is limited to 1901-2017.''),
               (''source'', JStr RAINFALL_SOURCE_NAME)]),
    sample_world\<lparr>http_requests := 2\<rparr>)"
proof -
  have u: "[max 1901 2016..min 2017 2020] = [2016, 2017::int]"
    by simp
  show ?thesis
    by (simp add: call_get_rainfall_trend_def check_keywords_def dict_has_def bound_arg_def
        dict_get_def returned_or_raised_def get_rainfall_trend_def sample_world_def
        decimal_int_examples u get_live_rainfall_data_any_def rain_lookup_of_def)
qed

lemma text_year_of_agriculture_data:
  "call_get_local_agriculture_data
     [(''state'', JStr ''punjab''), (''year'', JStr ''2010''), (''crop'', JStr ''wheat'')]
     sample_world =
   (Inr (JObj [(''state'', JStr ''punjab''),
               (''year'', JStr ''2010''),
               (''crop'', JStr ''wheat''),
               (''total_production_tonnes'', JFloat 2000),
               (''source'', JStr (AGRICULTURE_SOURCE_NAME sample_world))]),
    sample_world\<lparr>df_agri := Some sample_frame\<rparr>)"
  by (simp add: call_get_local_agriculture_data_def check_keywords_def dict_has_def bound_arg_def
      bound_arg_default_def dict_get_def returned_def get_local_agriculture_data_def
      agri_guard_def get_agri_data_def sample_world_def decimal_int_examples
      local_agriculture_body_def state_year_mask_any_def crop_mask_any_def contains_pattern_def
      plain_contains_def sample_frame_def sample_rows_def row_matches_def to_lower_def
      py_startswith_def total_production_def py_round2_def round_half_even_def
      AGRICULTURE_SOURCE_NAME_def)

text \<open>
  C8. Whatever values its arguments have, every mapping that one of the five handlers
  returns has the key \<^verbatim>\<open>source\<close> with a text value: on the success paths, on the error paths
  of the handler, and in the handler of its \<^verbatim>\<open>try\<close> block. Three of the handlers return a
  mapping on every call; \<^verbatim>\<open>get_live_rainfall_data\<close> and \<^verbatim>\<open>get_rainfall_trend\<close> return one
  unless an exception leaves them. The same holds for what any entry of \<^verbatim>\<open>TOOLS\<close> returns
  when it is called with a keyword mapping.
\<close>

theorem returned_mapping_has_source:
  "(\<forall>m w'. get_live_rainfall_data_any state year w = (Inr m, w') \<longrightarrow>
      (\<exists>s. dict_get m ''source'' = Some (JStr s))) \<and>
   (\<exists>s. dict_get (fst (get_local_agriculture_data state year crop_name top_n w)) ''source''
         = Some (JStr s)) \<and>
   (\<exists>s. dict_get (fst (get_district_production state crop_name year sort_order w)) ''source''
         = Some (JStr s)) \<and>
   (\<exists>s. dict_get (fst (get_production_trend_any state crop_name start_year end_year w))
           ''source'' = Some (JStr s)) \<and>
   (\<forall>m w'. get_rainfall_trend state start_year end_year w = (Inr m, w') \<longrightarrow>
      (\<exists>s. dict_get m ''source'' = Some (JStr s))) \<and>
   (\<forall>name info kwargs result w'.
      (name, info) \<in> set TOOLS \<and> func info kwargs w = (Inr result, w') \<longrightarrow>
      (\<exists>m s. result = JObj m \<and> dict_get m ''source'' = Some (JStr s)))"
proof (intro conjI allI impI)
  fix m w'
  assume "get_live_rainfall_data_any state year w = (Inr m, w')"
  then show "\<exists>s. dict_get m ''source'' = Some (JStr s)"
    by (rule get_live_rainfall_data_any_source)
next
  show "\<exists>s. dict_get (fst (get_local_agriculture_data state year crop_name top_n w)) ''source''
          = Some (JStr s)"
    by (rule get_local_agriculture_data_source)
next
  show "\<exists>s. dict_get (fst (get_district_production state crop_name year sort_order w)) ''source''
          = Some (JStr s)"
    by (rule get_district_production_source)
next
  show "\<exists>s. dict_get (fst (get_production_trend_any state crop_name start_year end_year w))
            ''source'' = Some (JStr s)"
    by (rule get_production_trend_any_source)
next
  fix m w'
  assume "get_rainfall_trend state start_year end_year w = (Inr m, w')"
  then show "\<exists>s. dict_get m ''source'' = Some (JStr s)"
    by (rule get_rainfall_trend_source)
next
  fix name info kwargs result w'
  assume a: "(name, info) \<in> set TOOLS \<and> func info kwargs w = (Inr result, w')"
  then have "func info = call_get_live_rainfall_data \<or>
      func info = call_get_local_agriculture_data \<or>
      func info = call_get_district_production \<or> func info = call_get_production_trend \<or>
      func info = call_get_rainfall_trend"
    using registry_funcs by blast
  with a show "\<exists>m s. result = JObj m \<and> dict_get m ''source'' = Some (JStr s)"
    using call_get_live_rainfall_data_source call_get_local_agriculture_data_source
      call_get_district_production_source call_get_production_trend_source
      call_get_rainfall_trend_source
    by metis
qed

theorem returned_mapping_has_source_witness:
  "(\<exists>m s. fst (call_get_live_rainfall_data
                 [(''state'', JStr ''Kerala''), (''year'', JFloat (3701 / 2))] sample_world)
            = Inr (JObj m) \<and>
          dict_get m ''source'' = Some (JStr s)) \<and>
   (\<exists>m s. fst (call_get_local_agriculture_data
                 [(''state'', JStr ''punjab''), (''year'', JStr ''2010''),
                  (''crop'', JStr ''wheat'')] sample_world)
            = Inr (JObj m) \<and>
          dict_get m ''source'' = Some (JStr s)) \<and>
   (\<exists>m s. fst (call_get_rainfall_trend
                 [(''state'', JStr ''Kerala''), (''start_year'', JStr ''2016''),
                  (''end_year'', JStr ''2020'')] sample_world)
            = Inr (JObj m) \<and>
          dict_get m ''source'' = Some (JStr s)) \<and>
   (\<exists>s. dict_get (fst (get_production_trend_any (JStr ''Punjab'') (JStr ''Wheat'')
                        (JStr ''2010'') JNull world_without_csv)) ''source''
         = Some (JStr s))"
proof -
  have reg: "\<exists>m s. result = JObj m \<and> dict_get m ''source'' = Some (JStr s)"
    if "i < 5" and "func (snd (TOOLS ! i)) kwargs sample_world = (Inr result, w')"
    for i kwargs result w'
  proof -
    have "length TOOLS = 5"
      by (simp add: TOOLS_def)
    with that(1) have "(fst (TOOLS ! i), snd (TOOLS ! i)) \<in> set TOOLS"
      by simp
    with that(2) show ?thesis
      using returned_mapping_has_source [where w = sample_world] by blast
  qed
  have f: "func (snd (TOOLS ! 0)) = call_get_live_rainfall_data"
    "func (snd (TOOLS ! 1)) = call_get_local_agriculture_data"
    "func (snd (TOOLS ! 4)) = call_get_rainfall_trend"
    by (simp_all add: TOOLS_def)
  have "\<exists>s. dict_get (fst (get_production_trend_any (JStr ''Punjab'') (JStr ''Wheat'')
                (JStr ''2010'') JNull world_without_csv)) ''source'' = Some (JStr s)"
    using returned_mapping_has_source [where w = world_without_csv] by blast
  then show ?thesis
    using reg [of 0, unfolded f, OF _ float_year_is_out_of_range]
      reg [of 1, unfolded f, OF _ text_year_of_agriculture_data]
      reg [of 4, unfolded f, OF _ text_years_of_a_rainfall_trend]
    by (simp add: float_year_is_out_of_range text_year_of_agriculture_data
        text_years_of_a_rainfall_trend)
qed

section \<open>The tool catalog\<close>

lemma schema_dumps:
  "json_dumps fr ea (JObj (map (\<lambda>kv. (fst kv, JStr (snd kv))) sch)) =
     ''{'' @ py_join '', ''
        (map (\<lambda>kv. json_dumps_str ea (fst kv) @ '': '' @ json_dumps_str ea (snd kv)) sch) @ ''}''"
  by (simp add: comp_def)

lemma tool_definition_float_free:
  "tool_definition fr t = tool_definition fr' t"
  unfolding tool_definition_def schema_dumps by simp

lemma get_tool_definitions_float_free:
  "get_tool_definitions fr reg = get_tool_definitions fr' reg"
proof -
  have "tool_definition fr = (tool_definition fr' :: string \<times> 'a tool_info \<Rightarrow> string)"
    by (rule ext) (rule tool_definition_float_free)
  then show ?thesis by (simp add: get_tool_definitions_def)
qed

lemma py_split_from_sep:
  "c \<notin> set s \<Longrightarrow> py_split_from c acc (s @ c # rest) = (rev acc @ s) # py_split_from c [] rest"
  by (induction s arbitrary: acc) auto

lemma py_split_from_end:
  "c \<notin> set s \<Longrightarrow> py_split_from c acc s = [rev acc @ s]"
  by (induction s arbitrary: acc) auto

lemma py_split_sep0:
  "c \<notin> set s \<Longrightarrow> py_split_from c [] (s @ c # rest) = s # py_split_from c [] rest"
  using py_split_from_sep [of c s "[]" rest] by simp

lemma py_split_end0:
  "c \<notin> set s \<Longrightarrow> py_split_from c [] s = [s]"
  using py_split_from_end [of c s "[]"] by simp

lemma py_join_free:
  "c \<notin> set sep \<Longrightarrow> \<forall>x\<in>set xs. c \<notin> set x \<Longrightarrow> c \<notin> set (py_join sep xs)"
  by (induction sep xs rule: py_join.induct) auto

lemma hex_char_not_newline:
  "d < 16 \<Longrightarrow> hex_char d \<noteq> CHR 0x0A"
proof -
  assume "d < 16"
  then have "hex_char d \<in> set ''0123456789abcdef''"
    unfolding hex_char_def by (intro nth_mem) simp
  then show ?thesis by auto
qed

lemma json_escape_char_no_newline:
  "CHR 0x0A \<notin> set (json_escape_char ea c)"
proof -
  have "(of_char c :: nat) < 256" by simp
  then have "(of_char c :: nat) div 16 < 16" "(of_char c :: nat) mod 16 < 16" by arith+
  then have "hex_char (of_char c div 16) \<noteq> CHR 0x0A" "hex_char (of_char c mod 16) \<noteq> CHR 0x0A"
    by (simp_all add: hex_char_not_newline)
  then show ?thesis
    by (auto simp: json_escape_char_def u_escape_def bslash_def)
qed

lemma json_dumps_str_no_newline:
  "CHR 0x0A \<notin> set (json_dumps_str ea s)"
  using json_escape_char_no_newline by (auto simp: json_dumps_str_def)

lemma schema_dumps_no_newline:
  "CHR 0x0A \<notin> set (json_dumps fr ea (JObj (map (\<lambda>kv. (fst kv, JStr (snd kv))) sch)))"
proof -
  have "CHR 0x0A \<notin> set (py_join '', ''
        (map (\<lambda>kv. json_dumps_str ea (fst kv) @ '': '' @ json_dumps_str ea (snd kv)) sch))"
    by (rule py_join_free) (auto simp: json_dumps_str_no_newline)
  then show ?thesis unfolding schema_dumps by simp
qed

lemma tool_definition_split:
  assumes "CHR 0x0A \<notin> set (fst t)" and "CHR 0x0A \<notin> set (desc (snd t))"
  shows \<open>py_split_from CHR 0x0A [] (tool_definition fr t @ rest) =
           [''- Tool: `'' @ fst t @ ''`'', ''  - Description: '' @ desc (snd t)] @
           py_split_from CHR 0x0A []
             ((''  - Arguments (JSON Schema): '' @
                json_dumps fr True (JObj (map (\<lambda>kv. (fst kv, JStr (snd kv))) (schema (snd t)))))
              @ rest)\<close>
proof -
  let ?l1 = \<open>''- Tool: `'' @ fst t @ ''`''\<close>
  let ?l2 = \<open>''  - Description: '' @ desc (snd t)\<close>
  let ?l3 = \<open>''  - Arguments (JSON Schema): '' @
                json_dumps fr True (JObj (map (\<lambda>kv. (fst kv, JStr (snd kv))) (schema (snd t))))\<close>
  have e: "tool_definition fr t @ rest = ?l1 @ CHR 0x0A # (?l2 @ CHR 0x0A # (?l3 @ rest))"
    by (simp add: tool_definition_def)
  have n1: "CHR 0x0A \<notin> set ?l1" using assms(1) by simp
  have n2: "CHR 0x0A \<notin> set ?l2" using assms(2) by simp
  show ?thesis
    unfolding e py_split_sep0 [OF n1] py_split_sep0 [OF n2] by (simp only: append.simps)
qed

lemma arguments_line_split_end:
  \<open>py_split_from CHR 0x0A []
     (''  - Arguments (JSON Schema): '' @
        json_dumps fr True (JObj (map (\<lambda>kv. (fst kv, JStr (snd kv))) sch)))
   = [''  - Arguments (JSON Schema): '' @
        json_dumps fr True (JObj (map (\<lambda>kv. (fst kv, JStr (snd kv))) sch))]\<close>
proof -
  have "CHR 0x0A \<notin> set (''  - Arguments (JSON Schema): '' @
        json_dumps fr True (JObj (map (\<lambda>kv. (fst kv, JStr (snd kv))) sch)))"
    using schema_dumps_no_newline [of fr True sch] by simp
  then show ?thesis by (rule py_split_end0)
qed

lemma arguments_line_split_sep:
  \<open>py_split_from CHR 0x0A []
     ((''  - Arguments (JSON Schema): '' @
        json_dumps fr True (JObj (map (\<lambda>kv. (fst kv, JStr (snd kv))) sch))) @ CHR 0x0A # rest)
   = (''  - Arguments (JSON Schema): '' @
        json_dumps fr True (JObj (map (\<lambda>kv. (fst kv, JStr (snd kv))) sch)))
     # py_split_from CHR 0x0A [] rest\<close>
proof -
  have "CHR 0x0A \<notin> set (''  - Arguments (JSON Schema): '' @
        json_dumps fr True (JObj (map (\<lambda>kv. (fst kv, JStr (snd kv))) sch)))"
    using schema_dumps_no_newline [of fr True sch] by simp
  then show ?thesis by (rule py_split_sep0)
qed

lemma catalog_lines:
  assumes "reg \<noteq> []"
    and "\<forall>t\<in>set reg. CHR 0x0A \<notin> set (fst t) \<and> CHR 0x0A \<notin> set (desc (snd t))"
  shows \<open>py_split (get_tool_definitions fr reg) CHR 0x0A =
     concat (map (\<lambda>t. [''- Tool: `'' @ fst t @ ''`'',
                          ''  - Description: '' @ desc (snd t),
                          ''  - Arguments (JSON Schema): '' @
                            json_dumps fr True
                              (JObj (map (\<lambda>kv. (fst kv, JStr (snd kv))) (schema (snd t))))])
               reg)\<close>
  using assms
proof (induction reg rule: list_nonempty_induct)
  case (single t)
  then show ?case
    using tool_definition_split [of t fr "[]"] arguments_line_split_end [of fr "schema (snd t)"]
    by (simp add: py_split_def get_tool_definitions_def del: json_dumps.simps)
next
  case (cons t ts)
  obtain u us where ts: "ts = u # us" using cons.hyps by (cases ts) auto
  have j: "py_join ''\<newline>'' (map (tool_definition fr) (t # ts)) =
           tool_definition fr t @ CHR 0x0A # py_join ''\<newline>'' (map (tool_definition fr) ts)"
    by (simp add: ts)
  show ?case
    using cons.IH cons.prems
      tool_definition_split [of t fr "CHR 0x0A # py_join ''\<newline>'' (map (tool_definition fr) ts)"]
      arguments_line_split_sep [of fr "schema (snd t)" "py_join ''\<newline>'' (map (tool_definition fr) ts)"]
    unfolding py_split_def get_tool_definitions_def j
    by (simp del: json_dumps.simps)
qed

text \<open>
  C9. The catalog is a function of the registry alone (also the way floats are printed
  does not enter it), so rendering it again gives the same text. Cut at its line breaks,
  the catalog of \<^verbatim>\<open>TOOLS\<close> is, for each tool in the order of the registry, the three labelled
  lines with its name, its description and its argument schema; the five names are
  distinct, so each tool is listed once.
\<close>

theorem tool_catalog_is_stable_and_complete:
  \<open>get_tool_definitions fr TOOLS = get_tool_definitions fr' TOOLS \<and>
   py_split (get_tool_definitions fr TOOLS) CHR 0x0A =
     concat (map (\<lambda>t. [''- Tool: `'' @ fst t @ ''`'',
                          ''  - Description: '' @ desc (snd t),
                          ''  - Arguments (JSON Schema): '' @
                            json_dumps fr True
                              (JObj (map (\<lambda>kv. (fst kv, JStr (snd kv))) (schema (snd t))))])
               TOOLS) \<and>
   map fst TOOLS =
     [''get_live_rainfall_data'', ''get_local_agriculture_data'', ''get_district_production'',
      ''get_production_trend'', ''get_rainfall_trend''] \<and>
   distinct (map fst TOOLS)\<close>
proof -
  have a: "get_tool_definitions fr TOOLS = get_tool_definitions fr' TOOLS"
    by (rule get_tool_definitions_float_free)
  have ne: "TOOLS \<noteq> []"
    by (simp add: TOOLS_def)
  have nl: "\<forall>t\<in>set TOOLS. CHR 0x0A \<notin> set (fst t) \<and> CHR 0x0A \<notin> set (desc (snd t))"
    by (simp add: TOOLS_def)
  note b = catalog_lines [OF ne nl, of fr]
  have c: "map fst TOOLS =
     [''get_live_rainfall_data'', ''get_local_agriculture_data'', ''get_district_production'',
      ''get_production_trend'', ''get_rainfall_trend'']"
    by (simp add: TOOLS_def)
  have d: "distinct (map fst TOOLS)"
    unfolding c by simp
  show ?thesis using a b c d by blast
qed

theorem tool_catalog_is_stable_and_complete_witness:
  \<open>get_tool_definitions two_decimals TOOLS = get_tool_definitions (\<lambda>r. ''0.0'') TOOLS \<and>
   py_split (get_tool_definitions two_decimals TOOLS) CHR 0x0A =
     concat (map (\<lambda>t. [''- Tool: `'' @ fst t @ ''`'',
                          ''  - Description: '' @ desc (snd t),
                          ''  - Arguments (JSON Schema): '' @
                            json_dumps two_decimals True
                              (JObj (map (\<lambda>kv. (fst kv, JStr (snd kv))) (schema (snd t))))])
               TOOLS) \<and>
   map fst TOOLS =
     [''get_live_rainfall_data'', ''get_local_agriculture_data'', ''get_district_production'',
      ''get_production_trend'', ''get_rainfall_trend''] \<and>
   distinct (map fst TOOLS)\<close>
  by (rule tool_catalog_is_stable_and_complete)

subsection \<open>Production over a range of years\<close>

lemma get_agri_data_frame:
  assumes "get_agri_data w = (r, w')"
  shows "str_contains w' = str_contains w \<and> LOCAL_CSV_PATH w' = LOCAL_CSV_PATH w"
  using assms by (auto simp: get_agri_data_def split: option.splits sum.splits)

lemma py_round2_zero:
  "py_round2 0 = 0"
  by (simp add: py_round2_def round_half_even_def)

lemma state_year_crop_mask_defined:
  assumes "''state'' \<in> set (df_columns df)" and "''year'' \<in> set (df_columns df)"
    and "''crop'' \<in> set (df_columns df)"
    and "str_contains w state = Inr ms" and "str_contains w crop = Inr mc"
  shows "state_year_crop_mask w df state year crop =
           Inr (\<lambda>r. (row_matches ms (a_state r) \<and> a_year r = year) \<and> row_matches mc (a_crop r))"
  using assms by (simp add: state_year_crop_mask_def state_year_mask_def crop_mask_def)

lemma year_production_defined:
  assumes "''state'' \<in> set (df_columns df)" and "''year'' \<in> set (df_columns df)"
    and "''crop'' \<in> set (df_columns df)"
    and "str_contains w state = Inr ms" and "str_contains w crop = Inr mc"
  shows "year_production w df state crop year =
           Inr (total_production
             (filter (\<lambda>r. row_matches ms (a_state r) \<and> a_year r = year \<and> row_matches mc (a_crop r))
                (df_rows df)))"
  unfolding year_production_def state_year_crop_mask_defined [OF assms]
  by (auto simp: total_production_def Let_def conj_assoc)

lemma production_trend_loop_defined:
  assumes "''state'' \<in> set (df_columns df)" and "''year'' \<in> set (df_columns df)"
    and "''crop'' \<in> set (df_columns df)"
    and "str_contains w state = Inr ms" and "str_contains w crop = Inr mc"
  shows "production_trend_loop w df state crop years =
           Inr (map (\<lambda>year. JObj [(''year'', JInt year),
                  (''production_tonnes'', JFloat (py_round2 (total_production
                     (filter (\<lambda>r. row_matches ms (a_state r) \<and> a_year r = year \<and>
                                  row_matches mc (a_crop r)) (df_rows df)))))]) years)"
  by (induction years) (simp_all add: year_production_defined [OF assms])

text \<open>
  C10, as the program has it. When the table is there (cached, or read from the file),
  has the columns \<^verbatim>\<open>state\<close>, \<^verbatim>\<open>year\<close> and \<^verbatim>\<open>crop\<close>, and the text test accepts both patterns,
  \<^verbatim>\<open>get_production_trend\<close> returns the success mapping whose \<^verbatim>\<open>trend\<close> has one entry for each
  year from \<^verbatim>\<open>start_year\<close> to \<^verbatim>\<open>end_year\<close>, in ascending order, with the rounded total of the
  rows of that year: a year without rows gets the total of no rows, which is 0, and never
  an error.
\<close>

theorem production_trend_has_one_entry_per_year:
  assumes "get_agri_data w = (Inr df, w')"
    and "''state'' \<in> set (df_columns df)" and "''year'' \<in> set (df_columns df)"
    and "''crop'' \<in> set (df_columns df)"
    and "str_contains w state = Inr ms" and "str_contains w crop = Inr mc"
  shows "get_production_trend state crop start_year end_year w =
           ([(''state'', JStr state),
             (''crop'', JStr crop),
             (''trend'', JArr (map (\<lambda>year. JObj [(''year'', JInt year),
                  (''production_tonnes'', JFloat (py_round2 (total_production
                     (filter (\<lambda>r. row_matches ms (a_state r) \<and> a_year r = year \<and>
                                  row_matches mc (a_crop r)) (df_rows df)))))])
                [start_year..end_year])),
             (''source'', JStr (AGRICULTURE_SOURCE_NAME w))], w') \<and>
         py_round2 (total_production []) = 0"
proof -
  have k: "str_contains w' = str_contains w" "LOCAL_CSV_PATH w' = LOCAL_CSV_PATH w"
    using get_agri_data_frame [OF assms(1)] by simp_all
  have s: "str_contains w' state = Inr ms" "str_contains w' crop = Inr mc"
    using assms(5,6) k by simp_all
  show ?thesis
    using assms(1) k(2)
    by (simp add: get_production_trend_def agri_guard_def production_trend_body_def
        production_trend_loop_defined [OF assms(2,3,4) s] AGRICULTURE_SOURCE_NAME_def
        total_production_def py_round2_zero)
qed

theorem production_trend_has_one_entry_per_year_witness:
  "get_production_trend ''punjab'' ''wheat'' 2009 2012 sample_world =
     ([(''state'', JStr ''punjab''),
       (''crop'', JStr ''wheat''),
       (''trend'', JArr
          [JObj [(''year'', JInt 2009), (''production_tonnes'', JFloat 0)],
           JObj [(''year'', JInt 2010), (''production_tonnes'', JFloat 2000)],
           JObj [(''year'', JInt 2011), (''production_tonnes'', JFloat 0)],
           JObj [(''year'', JInt 2012), (''production_tonnes'', JFloat 1500)]]),
       (''source'', JStr (AGRICULTURE_SOURCE_NAME sample_world))],
      sample_world\<lparr>df_agri := Some sample_frame\<rparr>) \<and>
   py_round2 (total_production []) = 0"
proof -
  have g: "get_agri_data sample_world = (Inr sample_frame, sample_world\<lparr>df_agri := Some sample_frame\<rparr>)"
    by (simp add: get_agri_data_def sample_world_def)
  have c: "''state'' \<in> set (df_columns sample_frame)" "''year'' \<in> set (df_columns sample_frame)"
    "''crop'' \<in> set (df_columns sample_frame)"
    by (simp_all add: sample_frame_def)
  have m: "str_contains sample_world ''punjab'' =
             Inr (\<lambda>s. has_infix (map to_lower ''punjab'') (map to_lower s))"
    "str_contains sample_world ''wheat'' =
             Inr (\<lambda>s. has_infix (map to_lower ''wheat'') (map to_lower s))"
    by (simp_all add: sample_world_def plain_contains_def)
  have u: "[2009..2012] = [2009, 2010, 2011, 2012::int]"
    by simp
  show ?thesis
    using production_trend_has_one_entry_per_year [OF g c m, of 2009 2012]
    unfolding u
    by (simp add: sample_frame_def sample_rows_def row_matches_def to_lower_def py_startswith_def
        total_production_def py_round2_def round_half_even_def)
qed

text \<open>
  The claim C10 as stated fails: the body of the function is a \<^verbatim>\<open>try\<close> block whose handler
  returns an error mapping. That is what comes back when the file is missing, and when the
  state is a text that the text test rejects as a pattern.
\<close>

theorem production_trend_can_return_error_mapping:
  "get_production_trend ''Punjab'' ''Wheat'' 2010 2012 world_without_csv =
     ([(''error'', JStr ''Unexpected error in get_production_trend: CSV not found at /srv/app/data/agriculture_production.csv''),
       (''source'', JStr ''data.gov.in (Crop Production): /srv/app/data/agriculture_production.csv'')],
      world_without_csv) \<and>
   get_production_trend ''('' ''Wheat'' 2010 2012 strict_world =
     ([(''error'', JStr ''Unexpected error in get_production_trend: missing ), unterminated subpattern at position 0''),
       (''source'', JStr ''data.gov.in (Crop Production): /srv/app/data/agriculture_production.csv'')],
      strict_world\<lparr>df_agri := Some sample_frame\<rparr>)"
  by (simp add: get_production_trend_def agri_guard_def get_agri_data_def world_without_csv_def
      strict_world_def sample_world_def AGRICULTURE_SOURCE_NAME_def production_trend_body_def
      year_production_def state_year_crop_mask_def state_year_mask_def
      sample_frame_def strict_contains_def)

end
